theory Spec2Isabelle
  imports Complex_Main "HOL-Library.Log_Nat"
begin

section \<open>Values of the host language\<close>

text \<open>
  A JavaScript number, an IEEE 754 double. A finite double is represented by the
  rational it denotes, so \<open>Fin 0\<close> stands for both zeros (they are equal under \<open>===\<close>,
  both falsy, and both print as \<open>0\<close>).
\<close>

datatype number = NaN | Fin rat | PosInfinity | NegInfinity

text \<open>
  The finite doubles are the rationals \<open>m * 2^e\<close> with \<open>|m| < 2^53\<close> and
  \<open>-1074 \<le> e \<le> 971\<close>.
\<close>

definition isDouble :: "rat \<Rightarrow> bool" where
  "isDouble r =
     (\<exists>m e. \<bar>m\<bar> < 2 ^ 53 \<and> - 1074 \<le> e \<and> e \<le> 971 \<and> r = of_int m * 2 powi e)"

text \<open>
  The least magnitude that rounds to an infinity: half a unit in the last place above
  the largest finite double.
\<close>

definition overflowThreshold :: rat where
  "overflowThreshold = 2 powi 1024 - 2 powi 970"

text \<open>
  Rounding of an exact result to a double, to nearest with ties to even, as every
  arithmetic operation on numbers does. \<open>roundHalfEven\<close> rounds to an integer;
  \<open>floorLog2 x\<close> is the \<open>k\<close> with \<open>2^k \<le> x < 2^(k+1)\<close>, for positive \<open>x\<close>;
  \<open>exponentOf x\<close> is the exponent of the unit in the last place of the doubles around
  \<open>x\<close> (53 significant bits, and no exponent below that of the subnormal doubles);
  \<open>roundToGrid x\<close> is the multiple of that unit nearest to \<open>x\<close>, and \<open>toDouble\<close> turns
  a result of magnitude \<open>2^1024\<close> or more into an infinity.
\<close>

definition roundHalfEven :: "rat \<Rightarrow> int" where
  "roundHalfEven y =
     (let f = \<lfloor>y\<rfloor>; d = y - of_int f
      in if d < 1 / 2 then f else if 1 / 2 < d then f + 1 else if even f then f else f + 1)"

definition floorLog2 :: "rat \<Rightarrow> int" where
  "floorLog2 x = (if 1 \<le> x then bitlen \<lfloor>x\<rfloor> - 1 else - bitlen (\<lceil>1 / x\<rceil> - 1))"

definition exponentOf :: "rat \<Rightarrow> int" where
  "exponentOf x = max (floorLog2 \<bar>x\<bar> - 52) (- 1074)"

definition roundToGrid :: "rat \<Rightarrow> rat" where
  "roundToGrid x = of_int (roundHalfEven (x / 2 powi exponentOf x)) * 2 powi exponentOf x"

definition toDouble :: "rat \<Rightarrow> number" where
  "toDouble x =
     (if x = 0 then Fin 0
      else if 2 powi 1024 \<le> roundToGrid x then PosInfinity
      else if roundToGrid x \<le> - (2 powi 1024) then NegInfinity
      else Fin (roundToGrid x))"

text \<open>The product \<open>a * b\<close> of two numbers.\<close>

fun times_number :: "number \<Rightarrow> number \<Rightarrow> number" where
  "times_number NaN _ = NaN"
| "times_number _ NaN = NaN"
| "times_number (Fin a) (Fin b) = toDouble (a * b)"
| "times_number (Fin a) PosInfinity =
     (if a = 0 then NaN else if 0 < a then PosInfinity else NegInfinity)"
| "times_number (Fin a) NegInfinity =
     (if a = 0 then NaN else if 0 < a then NegInfinity else PosInfinity)"
| "times_number PosInfinity (Fin b) =
     (if b = 0 then NaN else if 0 < b then PosInfinity else NegInfinity)"
| "times_number NegInfinity (Fin b) =
     (if b = 0 then NaN else if 0 < b then NegInfinity else PosInfinity)"
| "times_number PosInfinity PosInfinity = PosInfinity"
| "times_number PosInfinity NegInfinity = NegInfinity"
| "times_number NegInfinity PosInfinity = NegInfinity"
| "times_number NegInfinity NegInfinity = PosInfinity"

text \<open>Truthiness of a number: \<open>!n\<close> holds for zero and for NaN.\<close>

fun truthy_number :: "number \<Rightarrow> bool" where
  "truthy_number NaN = False"
| "truthy_number (Fin q) = (q \<noteq> 0)"
| "truthy_number PosInfinity = True"
| "truthy_number NegInfinity = True"

text \<open>Truthiness of an optional string: \<open>undefined\<close> and the empty string are falsy.\<close>

fun truthy_string :: "string option \<Rightarrow> bool" where
  "truthy_string None = False"
| "truthy_string (Some s) = (s \<noteq> [])"

text \<open>A JSON value, for the opaque payloads the server stores or passes on.\<close>

datatype json =
    JNull
  | JBool bool
  | JNumber number
  | JString string
  | JArray "json list"
  | JObject "(string \<times> json) list"

fun truthy_json :: "json option \<Rightarrow> bool" where
  "truthy_json None = False"
| "truthy_json (Some JNull) = False"
| "truthy_json (Some (JBool b)) = b"
| "truthy_json (Some (JNumber n)) = truthy_number n"
| "truthy_json (Some (JString s)) = (s \<noteq> [])"
| "truthy_json (Some (JArray _)) = True"
| "truthy_json (Some (JObject _)) = True"

text \<open>
  The decimal rendering of an integer, as a template literal prints \<open>Date.now()\<close> and
  \<open>Math.floor(...)\<close> (for magnitudes below \<open>10^21\<close>, which these have).
\<close>

definition digit :: "nat \<Rightarrow> char" where
  "digit d = ''0123456789'' ! d"

function showNat :: "nat \<Rightarrow> string" where
  "showNat n = (if n < 10 then [digit n] else showNat (n div 10) @ [digit (n mod 10)])"
  by pat_completeness auto
termination
  by (relation "measure (\<lambda>n. n)") auto

declare showNat.simps [simp del]

definition showInt :: "int \<Rightarrow> string" where
  "showInt i = (if i < 0 then ''-'' @ showNat (nat (- i)) else showNat (nat i))"

text \<open>\<open>`${Math.floor(n)}`\<close> for a number \<open>n\<close>.\<close>

definition showFloor :: "number \<Rightarrow> string" where
  "showFloor n =
     (case n of
        Fin q \<Rightarrow> showInt \<lfloor>q\<rfloor>
      | NaN \<Rightarrow> ''NaN''
      | PosInfinity \<Rightarrow> ''Infinity''
      | NegInfinity \<Rightarrow> ''-Infinity'')"

text \<open>\<open>s.startsWith(p)\<close>.\<close>

definition startsWith :: "string \<Rightarrow> string \<Rightarrow> bool" where
  "startsWith s p = (take (length p) s = p)"

text \<open>
  \<open>s.replace(p, "")\<close> with a string pattern: the first occurrence of \<open>p\<close> is removed,
  and \<open>s\<close> is returned as it is when \<open>p\<close> does not occur.
\<close>

fun replaceFirstByEmpty :: "string \<Rightarrow> string \<Rightarrow> string" where
  "replaceFirstByEmpty [] p = []"
| "replaceFirstByEmpty (c # cs) p =
     (if startsWith (c # cs) p then drop (length p) (c # cs)
      else c # replaceFirstByEmpty cs p)"

section \<open>Session state\<close>

record UserCredentials =
  privateKey :: "string option"
  walletAddress :: "string option"
  testnet :: bool
  vaultAddress :: "string option"

record Strategy =
  id :: string
  name :: string
  description :: string
  config :: json
  active :: bool

text \<open>
  The module's variables. \<open>strategies\<close> is a plain object used as a dictionary: its own
  properties are kept in insertion order (the order \<open>Object.entries\<close> reports for
  keys that are not array indices). \<open>hyperliquidClient\<close> is \<open>null\<close> or the client object,
  represented by the options it was constructed with.

  A plain object inherits from \<open>Object.prototype\<close>. The handlers read \<open>strategies[k]\<close>
  with a caller-supplied key and assign to the \<open>active\<close> property of what they find, so
  the one property that this program can add to \<open>Object.prototype\<close> is \<open>active\<close>;
  \<open>objectPrototypeActive\<close> is its value (\<open>None\<close> while it is not defined).
\<close>

record State =
  userCredentials :: UserCredentials
  strategies :: "(string \<times> Strategy) list"
  hyperliquidClient :: "UserCredentials option"
  objectPrototypeActive :: "bool option"

definition initialState :: State where
  "initialState =
     \<lparr> userCredentials =
         \<lparr> privateKey = None, walletAddress = None, testnet = True, vaultAddress = None \<rparr>,
       strategies = [],
       hyperliquidClient = None,
       objectPrototypeActive = None \<rparr>"

text \<open>The names of the properties every plain object inherits from \<open>Object.prototype\<close>.\<close>

definition objectPrototypeKeys :: "string list" where
  "objectPrototypeKeys =
     [''constructor'', ''__defineGetter__'', ''__defineSetter__'', ''hasOwnProperty'',
      ''__lookupGetter__'', ''__lookupSetter__'', ''isPrototypeOf'',
      ''propertyIsEnumerable'', ''toString'', ''valueOf'', ''__proto__'',
      ''toLocaleString'']"

text \<open>
  What \<open>obj[k]\<close> evaluates to on a plain object with own properties \<open>own\<close>: an own
  property, else a built-in inherited from \<open>Object.prototype\<close> (a function, or the
  prototype object itself for \<open>__proto__\<close>; always truthy), else the inherited \<open>active\<close>
  flag if one was defined, else \<open>undefined\<close>.
\<close>

datatype 'a property = Own 'a | Builtin string | InheritedActive bool | Undefined

definition getProperty :: "bool option \<Rightarrow> (string \<times> 'a) list \<Rightarrow> string \<Rightarrow> 'a property" where
  "getProperty protoActive own k =
     (case map_of own k of
        Some v \<Rightarrow> Own v
      | None \<Rightarrow>
          if k \<in> set objectPrototypeKeys then Builtin k
          else if k = ''active'' then
            (case protoActive of Some b \<Rightarrow> InheritedActive b | None \<Rightarrow> Undefined)
          else Undefined)"

text \<open>
  \<open>obj[k] = v\<close> on own properties: an existing key keeps its position, a new key goes
  last.
\<close>

fun setProperty :: "(string \<times> 'a) list \<Rightarrow> string \<Rightarrow> 'a \<Rightarrow> (string \<times> 'a) list" where
  "setProperty [] k v = [(k, v)]"
| "setProperty ((k', v') # ps) k v =
     (if k' = k then (k, v) # ps else (k', v') # setProperty ps k v)"

section \<open>Errors\<close>

text \<open>
  The protocol SDK's error codes. A handler fails by throwing \<open>McpError\<close> with a code and
  a message; any other exception that leaves a handler is a \<open>TypeError\<close> here.
\<close>

datatype ErrorCode =
    ConnectionClosed
  | RequestTimeout
  | ParseError
  | InvalidRequest
  | MethodNotFound
  | InvalidParams
  | InternalError

datatype thrown = McpError ErrorCode string | TypeError string


section \<open>The outside world\<close>

record orderRequest =
  coin :: string
  is_buy :: bool
  sz :: number
  reduce_only :: bool
  limit_px :: "number option"
  order_type :: json

text \<open>
  What \<open>priceMap[balance.coin] || 0\<close> evaluates to: a number, a built-in inherited from
  \<open>Object.prototype\<close> (named by its key), or the inherited flag \<open>true\<close>.
\<close>

datatype price = PriceNumber number | PriceBuiltin string | PriceTrue

text \<open>
  A spot balance. \<open>balance_rest\<close> stands for the properties the server does not read.
  \<open>balance_price\<close> and \<open>balance_usdValue\<close> are the two properties the server adds
  (\<open>None\<close> in what the exchange sends); the server stores \<open>price.toString()\<close> and
  \<open>usdValue.toString()\<close>, kept here as the values \<open>price\<close> and \<open>usdValue\<close>.
\<close>

record balance =
  balance_coin :: string
  balance_total :: string
  balance_rest :: json
  balance_price :: "price option"
  balance_usdValue :: "number option"

record assetCtx =
  ctx_coin :: string
  ctx_markPx :: string

text \<open>The calls a handler makes on the exchange SDK, in the order it makes them.\<close>

datatype call =
    NewHyperliquid UserCredentials
  | Connect
  | GetClearinghouseState string
  | GetSpotClearinghouseState string
  | GetSpotMetaAndAssetCtxs
  | GetL2Book string
  | PlaceOrder orderRequest
  | CancelOrder string number

text \<open>
  What the libraries and the exchange answer during one request. A call of the SDK that
  throws is \<open>Inl\<close> of the thrown error's message (\<open>connect\<close>: \<open>Some\<close> of it).
  \<open>walletAccepts k\<close> says that \<open>new ethers.Wallet(k)\<close> returns, \<open>hyperliquidAccepts c\<close>
  that \<open>new Hyperliquid(c)\<close> does; \<open>mcpErrorMessage\<close> is the \<open>message\<close> the SDK's
  \<open>McpError\<close> class gives an error built from a code and a text. \<open>dateNow\<close> is
  \<open>Date.now()\<close>, \<open>mathRandom\<close> is \<open>Math.random()\<close>, a double in \<open>[0, 1)\<close>.
\<close>

record Env =
  dateNow :: nat
  mathRandom :: rat
  isoTimestamp :: string
  parseFloat :: "string \<Rightarrow> number"
  parseInt :: "string \<Rightarrow> number"
  walletAccepts :: "string \<Rightarrow> bool"
  hyperliquidAccepts :: "UserCredentials \<Rightarrow> bool"
  mcpErrorMessage :: "ErrorCode \<Rightarrow> string \<Rightarrow> string"
  connect :: "string option"
  getClearinghouseState :: "string \<Rightarrow> string + json"
  getSpotClearinghouseState :: "string \<Rightarrow> string + balance list option"
  getSpotMetaAndAssetCtxs :: "string + json \<times> assetCtx list"
  getL2Book :: "string \<Rightarrow> string + json"
  placeOrder :: "orderRequest \<Rightarrow> string + json"
  cancelOrder :: "string \<Rightarrow> number \<Rightarrow> string + json"

section \<open>Client initialisation\<close>

text \<open>
  \<open>initializeClient()\<close> (index.ts, lines 75-94): \<open>null\<close> when neither credential is stored or when the
  constructor throws, else the new client. The second component is the calls made.
\<close>

definition initializeClient :: "Env \<Rightarrow> State \<Rightarrow> UserCredentials option \<times> call list" where
  "initializeClient env st =
     (let c = userCredentials st in
      if \<not> truthy_string (privateKey c) \<and> \<not> truthy_string (walletAddress c) then (None, [])
      else if hyperliquidAccepts env c then (Some c, [NewHyperliquid c])
      else (None, [NewHyperliquid c]))"

text \<open>\<open>if (!hyperliquidClient) hyperliquidClient = initializeClient();\<close>\<close>

definition ensureClient :: "Env \<Rightarrow> State \<Rightarrow> State \<times> call list" where
  "ensureClient env st =
     (case hyperliquidClient st of
        Some _ \<Rightarrow> (st, [])
      | None \<Rightarrow>
          (let (c, calls) = initializeClient env st in (st\<lparr>hyperliquidClient := c\<rparr>, calls)))"

section \<open>Tool calls\<close>

text \<open>
  The argument bag of a tool call, each property at the type the tool's input schema
  declares; \<open>None\<close> is an absent property. Properties no tool reads are not represented.
\<close>

record Arguments =
  args_privateKey :: "string option"
  args_walletAddress :: "string option"
  args_testnet :: "bool option"
  args_vaultAddress :: "string option"
  args_symbol :: "string option"
  args_side :: "string option"
  args_size :: "number option"
  args_price :: "number option"
  args_orderType :: "string option"
  args_reduceOnly :: "bool option"
  args_orderId :: "string option"
  args_name :: "string option"
  args_description :: "string option"
  args_config :: "json option"
  args_strategyId :: "string option"
  args_active :: "bool option"

definition noArguments :: Arguments where
  "noArguments =
     \<lparr> args_privateKey = None, args_walletAddress = None, args_testnet = None,
       args_vaultAddress = None, args_symbol = None, args_side = None, args_size = None,
       args_price = None, args_orderType = None, args_reduceOnly = None,
       args_orderId = None, args_name = None, args_description = None,
       args_config = None, args_strategyId = None, args_active = None \<rparr>"

text \<open>
  The content a tool call returns: a text the handler builds, or the text
  \<open>JSON.stringify(v, null, 2)\<close>, kept as the value \<open>v\<close>.
\<close>

datatype toolResult = Text string | JsonText json

text \<open>
  The outcome of a handler: what it throws or returns, the state it leaves, and the
  calls it made on the SDK.
\<close>

type_synonym 'a outcome = "(thrown + 'a) \<times> State \<times> call list"

subsection \<open>authenticate\<close>

text \<open>
  \<open>case "authenticate"\<close> (index.ts, lines 412-462). The credentials are stored before
  the client is constructed, so they stay stored when the construction fails.
\<close>

definition authenticate :: "Env \<Rightarrow> Arguments \<Rightarrow> State \<Rightarrow> toolResult outcome" where
  "authenticate env args st =
     (let privateKey' = args_privateKey args;
          walletAddress' = args_walletAddress args;
          testnet' = (case args_testnet args of Some b \<Rightarrow> b | None \<Rightarrow> True);
          vaultAddress' = args_vaultAddress args
      in
      if \<not> truthy_string privateKey' \<and> \<not> truthy_string walletAddress' then
        (Inl (McpError InvalidParams ''Either privateKey or walletAddress must be provided''),
         st, [])
      else if truthy_string privateKey' \<and>
              \<not> walletAccepts env
                  (let k = the privateKey' in if startsWith k ''0x'' then k else ''0x'' @ k)
      then (Inl (McpError InvalidParams ''Invalid private key format''), st, [])
      else
        let st1 = st\<lparr>userCredentials :=
                      \<lparr> privateKey = privateKey', walletAddress = walletAddress',
                        testnet = testnet', vaultAddress = vaultAddress' \<rparr>\<rparr>;
            (c, calls) = initializeClient env st1;
            st2 = st1\<lparr>hyperliquidClient := c\<rparr>
        in
        if c = None then
          (Inl (McpError InternalError ''Failed to initialize Hyperliquid client''), st2, calls)
        else
          (Inr (Text (''Successfully authenticated with Hyperliquid '' @
                      (if testnet' then ''testnet'' else ''mainnet''))),
           st2, calls))"

subsection \<open>create_strategy\<close>

text \<open>
  \<open>case "create_strategy"\<close> (index.ts, lines 654-686), with the id
  \<open>`strategy-${Date.now()}-${Math.floor(Math.random() * 1000)}`\<close>.
\<close>

definition generateId :: "Env \<Rightarrow> string" where
  "generateId env =
     ''strategy-'' @ showNat (dateNow env) @ ''-'' @
     showFloor (times_number (Fin (mathRandom env)) (Fin 1000))"

definition create_strategy :: "Env \<Rightarrow> Arguments \<Rightarrow> State \<Rightarrow> toolResult outcome" where
  "create_strategy env args st =
     (if \<not> truthy_string (args_name args) \<or> \<not> truthy_string (args_description args) \<or>
         \<not> truthy_json (args_config args)
      then (Inl (McpError InvalidParams ''Name, description, and config are required''),
            st, [])
      else
        let name' = the (args_name args);
            description' = the (args_description args);
            config' = the (args_config args);
            id' = generateId env;
            st1 = st\<lparr>strategies :=
                      setProperty (strategies st) id'
                        \<lparr> id = id', name = name', description = description',
                          config = config', active = False \<rparr>\<rparr>
        in
        (Inr (Text (''Created strategy '' @ [CHR 0x22] @ name' @ [CHR 0x22] @
                    '' with ID: '' @ id')),
         st1, []))"

subsection \<open>activate_strategy\<close>

text \<open>
  \<open>case "activate_strategy"\<close> (index.ts, lines 689-719).
  \<open>args.active\<close> is read from an argument object that inherits from \<open>Object.prototype\<close>,
  so an absent property reads as the inherited \<open>active\<close> flag when one is defined.
  \<open>strategies[strategyId].active = active\<close> updates the record when the key is an own
  property; on the prototype object (key \<open>__proto__\<close>) it defines the inherited flag;
  on an inherited function it sets a property nothing reads; on the inherited flag
  itself, a boolean, the assignment throws in strict mode.
\<close>

definition activate_strategy :: "Env \<Rightarrow> Arguments \<Rightarrow> State \<Rightarrow> toolResult outcome" where
  "activate_strategy env args st =
     (let strategyId = args_strategyId args;
          active' = (case args_active args of
                       Some b \<Rightarrow> b
                     | None \<Rightarrow> (case objectPrototypeActive st of Some b \<Rightarrow> b | None \<Rightarrow> False))
      in
      if \<not> truthy_string strategyId then
        (Inl (McpError InvalidParams ''StrategyId and active status are required''), st, [])
      else
        let k = the strategyId;
            done = Inr (Text (''Strategy '' @ k @ '' '' @
                              (if active' then ''activated'' else ''deactivated'')))
        in
        case getProperty (objectPrototypeActive st) (strategies st) k of
          Undefined \<Rightarrow>
            (Inl (McpError InvalidRequest (''Strategy '' @ k @ '' not found'')), st, [])
        | InheritedActive False \<Rightarrow>
            (Inl (McpError InvalidRequest (''Strategy '' @ k @ '' not found'')), st, [])
        | InheritedActive True \<Rightarrow>
            (Inl (TypeError
                    (''Cannot create property '' @ [CHR 0x27] @ ''active'' @ [CHR 0x27] @
                     '' on boolean '' @ [CHR 0x27] @ ''true'' @ [CHR 0x27])),
             st, [])
        | Builtin b \<Rightarrow>
            (done,
             if b = ''__proto__'' then st\<lparr>objectPrototypeActive := Some active'\<rparr> else st,
             [])
        | Own s \<Rightarrow>
            (done,
             st\<lparr>strategies := setProperty (strategies st) k (s\<lparr>active := active'\<rparr>)\<rparr>,
             []))"


subsection \<open>get_market_data\<close>

text \<open>\<open>case "get_market_data"\<close> (index.ts, lines 465-514).\<close>

definition get_market_data :: "Env \<Rightarrow> Arguments \<Rightarrow> State \<Rightarrow> toolResult outcome" where
  "get_market_data env args st =
     (if \<not> truthy_string (args_symbol args) then
        (Inl (McpError InvalidParams ''Symbol is required''), st, [])
      else
        let symbol = the (args_symbol args);
            (st1, calls) = ensureClient env st
        in
        if hyperliquidClient st1 = None then
          (Inl (McpError InvalidRequest ''No credentials provided. Please authenticate first.''),
           st1, calls)
        else
          case connect env of
            Some msg \<Rightarrow>
              (Inl (McpError InternalError (''Failed to fetch market data: '' @ msg)),
               st1, calls @ [Connect])
          | None \<Rightarrow>
              (case getL2Book env symbol of
                 Inl msg \<Rightarrow>
                   (Inl (McpError InternalError (''Failed to fetch market data: '' @ msg)),
                    st1, calls @ [Connect, GetL2Book symbol])
               | Inr l2Book \<Rightarrow>
                   (Inr (JsonText (JObject
                      [(''symbol'', JString symbol), (''orderBook'', l2Book),
                       (''timestamp'', JString (isoTimestamp env))])),
                    st1, calls @ [Connect, GetL2Book symbol])))"

subsection \<open>place_order\<close>

text \<open>
  \<open>case "place_order"\<close> (index.ts, lines 517-595). \<open>submitOrder\<close> is
  the body of the \<open>try\<close> block after \<open>connect()\<close> has returned: the order request is
  built, a limit order without a truthy price throws \<open>McpError(InvalidParams)\<close> inside
  the block, and the order is submitted. \<open>Inl\<close> is the message of what was thrown, as
  the \<open>catch\<close> clause reads it.
\<close>

definition submitOrder ::
  "Env \<Rightarrow> string \<Rightarrow> string \<Rightarrow> number \<Rightarrow> number option \<Rightarrow> string \<Rightarrow> bool \<Rightarrow>
   (string + json) \<times> call list" where
  "submitOrder env symbol side size' price orderType reduceOnly =
     (let orderRequest =
            \<lparr> coin = symbol, is_buy = (side = ''buy''), sz = size',
              reduce_only = reduceOnly, limit_px = None, order_type = JNull \<rparr>
      in
      if orderType = ''limit'' then
        (if \<not> (case price of Some p \<Rightarrow> truthy_number p | None \<Rightarrow> False) then
           (Inl (mcpErrorMessage env InvalidParams ''Price is required for limit orders''), [])
         else
           let orderRequest1 =
                 orderRequest\<lparr>limit_px := price,
                   order_type :=
                     JObject [(''limit'', JObject [(''tif'', JString ''Gtc'')])]\<rparr>
           in (placeOrder env orderRequest1, [PlaceOrder orderRequest1]))
      else
        let orderRequest1 = orderRequest\<lparr>order_type := JObject [(''market'', JObject [])]\<rparr>
        in (placeOrder env orderRequest1, [PlaceOrder orderRequest1]))"

definition place_order :: "Env \<Rightarrow> Arguments \<Rightarrow> State \<Rightarrow> toolResult outcome" where
  "place_order env args st =
     (let size' = (case args_size args of Some n \<Rightarrow> n | None \<Rightarrow> NaN);
          price = args_price args;
          reduceOnly = (case args_reduceOnly args of Some b \<Rightarrow> b | None \<Rightarrow> False)
      in
      if \<not> truthy_string (args_symbol args) \<or> \<not> truthy_string (args_side args) \<or>
         \<not> truthy_number size' \<or> \<not> truthy_string (args_orderType args)
      then (Inl (McpError InvalidParams ''Symbol, side, size, and orderType are required''),
            st, [])
      else
        let symbol = the (args_symbol args);
            side = the (args_side args);
            orderType = the (args_orderType args);
            (st1, calls) = ensureClient env st
        in
        if hyperliquidClient st1 = None then
          (Inl (McpError InvalidRequest ''No credentials provided. Please authenticate first.''),
           st1, calls)
        else if \<not> truthy_string (privateKey (userCredentials st1)) then
          (Inl (McpError InvalidRequest ''Private key is required for trading operations''),
           st1, calls)
        else
          case connect env of
            Some msg \<Rightarrow>
              (Inl (McpError InternalError (''Failed to place order: '' @ msg)),
               st1, calls @ [Connect])
          | None \<Rightarrow>
              (case submitOrder env symbol side size' price orderType reduceOnly of
                 (Inl msg, calls1) \<Rightarrow>
                   (Inl (McpError InternalError (''Failed to place order: '' @ msg)),
                    st1, calls @ [Connect] @ calls1)
               | (Inr result, calls1) \<Rightarrow>
                   (Inr (JsonText result), st1, calls @ [Connect] @ calls1)))"

subsection \<open>cancel_order\<close>

text \<open>\<open>case "cancel_order"\<close> (index.ts, lines 598-651).\<close>

definition cancel_order :: "Env \<Rightarrow> Arguments \<Rightarrow> State \<Rightarrow> toolResult outcome" where
  "cancel_order env args st =
     (if \<not> truthy_string (args_symbol args) \<or> \<not> truthy_string (args_orderId args) then
        (Inl (McpError InvalidParams ''Symbol and orderId are required''), st, [])
      else
        let symbol = the (args_symbol args);
            orderId = the (args_orderId args);
            (st1, calls) = ensureClient env st
        in
        if hyperliquidClient st1 = None then
          (Inl (McpError InvalidRequest ''No credentials provided. Please authenticate first.''),
           st1, calls)
        else if \<not> truthy_string (privateKey (userCredentials st1)) then
          (Inl (McpError InvalidRequest ''Private key is required for trading operations''),
           st1, calls)
        else
          case connect env of
            Some msg \<Rightarrow>
              (Inl (McpError InternalError (''Failed to cancel order: '' @ msg)),
               st1, calls @ [Connect])
          | None \<Rightarrow>
              (let oid = parseInt env orderId in
               case cancelOrder env symbol oid of
                 Inl msg \<Rightarrow>
                   (Inl (McpError InternalError (''Failed to cancel order: '' @ msg)),
                    st1, calls @ [Connect, CancelOrder symbol oid])
               | Inr result \<Rightarrow>
                   (Inr (JsonText result), st1, calls @ [Connect, CancelOrder symbol oid])))"

subsection \<open>The tool-call handler\<close>

text \<open>The \<open>switch\<close> on the tool's name (index.ts, lines 409-727).\<close>

definition CallTool :: "Env \<Rightarrow> string \<Rightarrow> Arguments \<Rightarrow> State \<Rightarrow> toolResult outcome" where
  "CallTool env tool args st =
     (if tool = ''authenticate'' then authenticate env args st
      else if tool = ''get_market_data'' then get_market_data env args st
      else if tool = ''place_order'' then place_order env args st
      else if tool = ''cancel_order'' then cancel_order env args st
      else if tool = ''create_strategy'' then create_strategy env args st
      else if tool = ''activate_strategy'' then activate_strategy env args st
      else (Inl (McpError MethodNotFound (''Unknown tool: '' @ tool)), st, []))"


section \<open>Resources\<close>

subsection \<open>Listing\<close>

text \<open>
  The handler of \<open>ListResourcesRequestSchema\<close> (index.ts, lines 100-124): the account
  resource if a credential is stored, then one resource per own property of
  \<open>strategies\<close>.
\<close>

datatype resource =
  Resource (resource_uri: string) (resource_mimeType: string) (resource_name: string)
    (resource_description: string)

definition accountResource :: resource where
  "accountResource =
     Resource ''hyperliquid://account'' ''application/json'' ''Hyperliquid Account''
       ''Current account information from Hyperliquid''"

definition strategyResource :: "string \<times> Strategy \<Rightarrow> resource" where
  "strategyResource e =
     Resource (''hyperliquid://strategy/'' @ fst e) ''application/json'' (name (snd e))
       (''Trading strategy: '' @ description (snd e))"

definition ListResources :: "State \<Rightarrow> resource list" where
  "ListResources st =
     (if truthy_string (privateKey (userCredentials st)) \<or>
         truthy_string (walletAddress (userCredentials st))
      then [accountResource] else []) @
     map strategyResource (strategies st)"

subsection \<open>The account snapshot\<close>

text \<open>
  The account branch of the handler of \<open>ReadResourceRequestSchema\<close> (index.ts, lines
  134-223). The price map is a plain object: \<open>priceMap[coin] = v\<close> defines an own property,
  except for the key \<open>__proto__\<close>, whose inherited setter ignores a number.
\<close>

definition setPrice :: "Env \<Rightarrow> (string \<times> number) list \<Rightarrow> assetCtx \<Rightarrow> (string \<times> number) list" where
  "setPrice env priceMap ctx =
     (if ctx_coin ctx = ''__proto__'' then priceMap
      else setProperty priceMap (ctx_coin ctx) (parseFloat env (ctx_markPx ctx)))"

definition truthy_property :: "number property \<Rightarrow> bool" where
  "truthy_property p =
     (case p of
        Own n \<Rightarrow> truthy_number n
      | Builtin _ \<Rightarrow> True
      | InheritedActive b \<Rightarrow> b
      | Undefined \<Rightarrow> False)"

text \<open>
  The map from coin to price: one entry per asset context, then
  \<open>if (!priceMap["USDC-SPOT"] || priceMap["USDC-SPOT"] === 0) priceMap["USDC-SPOT"] = 1.0\<close>.
\<close>

definition buildPriceMap :: "Env \<Rightarrow> bool option \<Rightarrow> assetCtx list \<Rightarrow> (string \<times> number) list" where
  "buildPriceMap env protoActive spotAssetCtxs =
     (let priceMap = foldl (setPrice env) [] spotAssetCtxs;
          usdc = getProperty protoActive priceMap ''USDC-SPOT''
      in
      if \<not> truthy_property usdc \<or> usdc = Own (Fin 0)
      then setProperty priceMap ''USDC-SPOT'' (Fin 1)
      else priceMap)"

text \<open>\<open>priceMap[balance.coin] || 0\<close>\<close>

definition priceOf :: "bool option \<Rightarrow> (string \<times> number) list \<Rightarrow> string \<Rightarrow> price" where
  "priceOf protoActive priceMap c =
     (case getProperty protoActive priceMap c of
        Own n \<Rightarrow> if truthy_number n then PriceNumber n else PriceNumber (Fin 0)
      | Builtin k \<Rightarrow> PriceBuiltin k
      | InheritedActive b \<Rightarrow> if b then PriceTrue else PriceNumber (Fin 0)
      | Undefined \<Rightarrow> PriceNumber (Fin 0))"

text \<open>
  The number a price is converted to by \<open>tokenAmount * price\<close>: \<open>true\<close> is 1, a
  function or the prototype object is NaN.
\<close>

fun toNumber :: "price \<Rightarrow> number" where
  "toNumber (PriceNumber n) = n"
| "toNumber (PriceBuiltin _) = NaN"
| "toNumber PriceTrue = Fin 1"

definition enrich :: "Env \<Rightarrow> bool option \<Rightarrow> (string \<times> number) list \<Rightarrow> balance \<Rightarrow> balance" where
  "enrich env protoActive priceMap b =
     (let tokenAmount = parseFloat env (balance_total b);
          price' = priceOf protoActive priceMap (balance_coin b);
          usdValue = times_number tokenAmount (toNumber price')
      in b\<lparr>balance_price := Some price', balance_usdValue := Some usdValue\<rparr>)"

text \<open>
  The inner \<open>try\<close> block: the spot state that ends up in \<open>spotState\<close> (\<open>None\<close> is
  \<open>null\<close>), and the calls made. An exception in the block is caught and ignored, so
  \<open>spotState\<close> keeps what was assigned before it.
\<close>

definition fetchSpot :: "Env \<Rightarrow> bool option \<Rightarrow> string \<Rightarrow> balance list option \<times> call list" where
  "fetchSpot env protoActive address =
     (case getSpotClearinghouseState env address of
        Inl _ \<Rightarrow> (None, [GetSpotClearinghouseState address])
      | Inr None \<Rightarrow> (None, [GetSpotClearinghouseState address])
      | Inr (Some balances) \<Rightarrow>
          if \<not> 0 < length balances then
            (Some balances, [GetSpotClearinghouseState address])
          else
            (case getSpotMetaAndAssetCtxs env of
               Inl _ \<Rightarrow>
                 (Some balances, [GetSpotClearinghouseState address, GetSpotMetaAndAssetCtxs])
             | Inr (spotMeta, spotAssetCtxs) \<Rightarrow>
                 (let priceMap = buildPriceMap env protoActive spotAssetCtxs in
                  (Some (map (enrich env protoActive priceMap) balances),
                   [GetSpotClearinghouseState address, GetSpotMetaAndAssetCtxs]))))"

record accountInfo =
  perpetuals :: json
  spot :: "balance list option"
  network :: string

text \<open>
  The \<open>text\<close> of a resource's contents is \<open>JSON.stringify(v, null, 2)\<close>, kept as the
  value \<open>v\<close>: the account information (\<open>None\<close> is the empty object \<open>{}\<close>), a strategy
  record, or what \<open>strategies[k]\<close> inherits (a built-in, or the flag \<open>true\<close>).
\<close>

datatype document =
    AccountDocument "accountInfo option"
  | StrategyDocument Strategy
  | BuiltinDocument string
  | BooleanDocument bool

datatype contents = Contents (contents_uri: string) (contents_mimeType: string) (contents_text: document)

definition readAccount :: "Env \<Rightarrow> string \<Rightarrow> State \<Rightarrow> contents outcome" where
  "readAccount env uri st =
     (let (st1, calls) = ensureClient env st in
      if hyperliquidClient st1 = None then
        (Inl (McpError InvalidRequest ''No credentials provided. Please authenticate first.''),
         st1, calls)
      else
        case connect env of
          Some msg \<Rightarrow>
            (Inl (McpError InternalError (''Failed to fetch account information: '' @ msg)),
             st1, calls @ [Connect])
        | None \<Rightarrow>
            if truthy_string (walletAddress (userCredentials st1)) then
              (let address = the (walletAddress (userCredentials st1)) in
               case getClearinghouseState env address of
                 Inl msg \<Rightarrow>
                   (Inl (McpError InternalError
                           (''Failed to fetch account information: '' @ msg)),
                    st1, calls @ [Connect, GetClearinghouseState address])
               | Inr perpState \<Rightarrow>
                   (let (spotState, calls1) =
                          fetchSpot env (objectPrototypeActive st1) address;
                        accountInfo' =
                          \<lparr> perpetuals = perpState, spot = spotState,
                            network = (if testnet (userCredentials st1)
                                       then ''testnet'' else ''mainnet'') \<rparr>
                    in
                    (Inr (Contents uri ''application/json'' (AccountDocument (Some accountInfo'))),
                     st1, calls @ [Connect, GetClearinghouseState address] @ calls1)))
            else
              (Inr (Contents uri ''application/json'' (AccountDocument None)),
               st1, calls @ [Connect]))"

subsection \<open>A strategy record\<close>

text \<open>
  The strategy branch (index.ts, lines 226-244). \<open>strategies[strategyId]\<close> is truthy
  for a record, for an inherited built-in and for the inherited flag \<open>true\<close>.
\<close>

definition readStrategy :: "string \<Rightarrow> State \<Rightarrow> contents outcome" where
  "readStrategy uri st =
     (let strategyId = replaceFirstByEmpty uri ''hyperliquid://strategy/'';
          notFound = Inl (McpError InvalidRequest (''Strategy '' @ strategyId @ '' not found''))
      in
      case getProperty (objectPrototypeActive st) (strategies st) strategyId of
        Own strategy \<Rightarrow>
          (Inr (Contents uri ''application/json'' (StrategyDocument strategy)), st, [])
      | Builtin k \<Rightarrow>
          (Inr (Contents uri ''application/json'' (BuiltinDocument k)), st, [])
      | InheritedActive b \<Rightarrow>
          if b then (Inr (Contents uri ''application/json'' (BooleanDocument True)), st, [])
          else (notFound, st, [])
      | Undefined \<Rightarrow> (notFound, st, []))"

subsection \<open>The resource-read handler\<close>

definition ReadResource :: "Env \<Rightarrow> string \<Rightarrow> State \<Rightarrow> contents outcome" where
  "ReadResource env uri st =
     (if uri = ''hyperliquid://account'' then readAccount env uri st
      else if startsWith uri ''hyperliquid://strategy/'' then readStrategy uri st
      else (Inl (McpError InvalidRequest (''Resource not found: '' @ uri)), st, []))"


section \<open>The server as a state machine\<close>

text \<open>
  The requests that reach the handlers above, and the state a request leaves. The
  server handles one request at a time; each meets the world of its own moment.
\<close>

datatype request =
    ListResourcesRequest
  | ReadResourceRequest string
  | CallToolRequest string Arguments

definition handleRequest :: "Env \<Rightarrow> request \<Rightarrow> State \<Rightarrow> State" where
  "handleRequest env rq st =
     (case rq of
        ListResourcesRequest \<Rightarrow> st
      | ReadResourceRequest uri \<Rightarrow> fst (snd (ReadResource env uri st))
      | CallToolRequest tool args \<Rightarrow> fst (snd (CallTool env tool args st)))"

fun serve :: "(Env \<times> request) list \<Rightarrow> State \<Rightarrow> State" where
  "serve [] st = st"
| "serve ((env, rq) # rest) st = serve rest (handleRequest env rq st)"

text \<open>
  The requests that can assign to \<open>strategies[k]\<close> or to its \<open>active\<close> property:
  \<open>activate_strategy\<close> on \<open>k\<close>, and a \<open>create_strategy\<close> whose generated id is \<open>k\<close>.
\<close>

definition writesTo :: "string \<Rightarrow> Env \<times> request \<Rightarrow> bool" where
  "writesTo k x =
     (case snd x of
        CallToolRequest tool args \<Rightarrow>
          (tool = ''activate_strategy'' \<and> args_strategyId args = Some k) \<or>
          (tool = ''create_strategy'' \<and> generateId (fst x) = k)
      | _ \<Rightarrow> False)"

section \<open>Example worlds and states\<close>

text \<open>
  A world in which every call succeeds, with \<open>Date.now() = 1000\<close> and
  \<open>Math.random() = 0.5\<close>, in which an \<open>McpError\<close> has the message
  \<open>MCP error <number of the code>: <text>\<close>; and a state in which a client exists and
  both credentials are stored.
\<close>

definition codeNumber :: "ErrorCode \<Rightarrow> string" where
  "codeNumber c =
     (case c of
        ConnectionClosed \<Rightarrow> ''-32000''
      | RequestTimeout \<Rightarrow> ''-32001''
      | ParseError \<Rightarrow> ''-32700''
      | InvalidRequest \<Rightarrow> ''-32600''
      | MethodNotFound \<Rightarrow> ''-32601''
      | InvalidParams \<Rightarrow> ''-32602''
      | InternalError \<Rightarrow> ''-32603'')"

definition exampleEnv :: Env where
  "exampleEnv =
     \<lparr> dateNow = 1000, mathRandom = 1 / 2, isoTimestamp = ''2024-01-01T00:00:00.000Z'',
       parseFloat =
         (\<lambda>s. if s = ''10'' then Fin 10 else if s = ''2.5'' then Fin (5 / 2) else NaN),
       parseInt = (\<lambda>s. NaN),
       walletAccepts = (\<lambda>k. True),
       hyperliquidAccepts = (\<lambda>c. True),
       mcpErrorMessage = (\<lambda>c m. ''MCP error '' @ codeNumber c @ '': '' @ m),
       connect = None,
       getClearinghouseState = (\<lambda>a. Inr (JObject [])),
       getSpotClearinghouseState = (\<lambda>a. Inr None),
       getSpotMetaAndAssetCtxs = Inr (JNull, []),
       getL2Book = (\<lambda>s. Inr JNull),
       placeOrder = (\<lambda>r. Inr (JObject [(''status'', JString ''ok'')])),
       cancelOrder = (\<lambda>s n. Inr JNull) \<rparr>"

definition exampleCredentials :: UserCredentials where
  "exampleCredentials =
     \<lparr> privateKey = Some ''0x01'', walletAddress = Some ''0xabc'', testnet = True,
       vaultAddress = None \<rparr>"

definition tradingState :: State where
  "tradingState =
     \<lparr> userCredentials = exampleCredentials, strategies = [],
       hyperliquidClient = Some exampleCredentials, objectPrototypeActive = None \<rparr>"

text \<open>Two \<open>create_strategy\<close> calls, and the states they lead to in \<open>exampleEnv\<close>.\<close>

definition alphaArguments :: Arguments where
  "alphaArguments =
     noArguments\<lparr>args_name := Some ''alpha'', args_description := Some ''first'',
       args_config := Some (JObject [(''period'', JNumber (Fin 14))])\<rparr>"

definition betaArguments :: Arguments where
  "betaArguments =
     noArguments\<lparr>args_name := Some ''beta'', args_description := Some ''second'',
       args_config := Some (JObject [])\<rparr>"

definition alphaStrategy :: Strategy where
  "alphaStrategy =
     \<lparr> id = ''strategy-1000-500'', name = ''alpha'', description = ''first'',
       config = JObject [(''period'', JNumber (Fin 14))], active = False \<rparr>"

definition betaStrategy :: Strategy where
  "betaStrategy =
     \<lparr> id = ''strategy-1000-500'', name = ''beta'', description = ''second'',
       config = JObject [], active = False \<rparr>"

definition alphaState :: State where
  "alphaState = initialState\<lparr>strategies := [(''strategy-1000-500'', alphaStrategy)]\<rparr>"

definition betaState :: State where
  "betaState = initialState\<lparr>strategies := [(''strategy-1000-500'', betaStrategy)]\<rparr>"

text \<open>Two \<open>place_order\<close> calls: a limit order without a price, a market order of size -1.\<close>

definition limitWithoutPrice :: Arguments where
  "limitWithoutPrice =
     noArguments\<lparr>args_symbol := Some ''BTC-PERP'', args_side := Some ''buy'',
       args_size := Some (Fin 1), args_orderType := Some ''limit''\<rparr>"

definition marketSellNegative :: Arguments where
  "marketSellNegative =
     noArguments\<lparr>args_symbol := Some ''BTC-PERP'', args_side := Some ''sell'',
       args_size := Some (Fin (- 1)), args_orderType := Some ''market''\<rparr>"



definition hypeBalance :: balance where
  "hypeBalance =
     \<lparr> balance_coin = ''HYPE-SPOT'', balance_total = ''10'', balance_rest = JObject [],
       balance_price = None, balance_usdValue = None \<rparr>"

definition purrBalance :: balance where
  "purrBalance =
     \<lparr> balance_coin = ''PURR-SPOT'', balance_total = ''10'', balance_rest = JObject [],
       balance_price = None, balance_usdValue = None \<rparr>"

definition exampleCtxs :: "assetCtx list" where
  "exampleCtxs = [\<lparr> ctx_coin = ''HYPE-SPOT'', ctx_markPx = ''2.5'' \<rparr>]"

definition spotEnv :: Env where
  "spotEnv =
     exampleEnv\<lparr>getSpotClearinghouseState := (\<lambda>a. Inr (Some [hypeBalance, purrBalance])),
       getSpotMetaAndAssetCtxs := Inr (JNull, exampleCtxs)\<rparr>"





definition garbledBalance :: balance where
  "garbledBalance =
     \<lparr> balance_coin = ''PURR-SPOT'', balance_total = ''abc'', balance_rest = JObject [],
       balance_price = None, balance_usdValue = None \<rparr>"

definition garbledEnv :: Env where
  "garbledEnv =
     exampleEnv\<lparr>getSpotClearinghouseState := (\<lambda>a. Inr (Some [garbledBalance])),
       getSpotMetaAndAssetCtxs := Inr (JNull, exampleCtxs)\<rparr>"

section \<open>Rounding to a double\<close>

text \<open>
  \<open>roundHalfEven\<close> gives an integer nearest to its argument, and is odd (symmetric
  about zero).
\<close>

lemma roundHalfEven_nearest: "\<bar>of_int (roundHalfEven y) - y\<bar> \<le> \<bar>of_int z - y\<bar>"
proof -
  have f: "of_int \<lfloor>y\<rfloor> \<le> y" "y < of_int \<lfloor>y\<rfloor> + 1" by linarith+
  have "z \<le> \<lfloor>y\<rfloor> \<or> \<lfloor>y\<rfloor> + 1 \<le> z" by linarith
  then have "(of_int z :: rat) \<le> of_int \<lfloor>y\<rfloor> \<or> (of_int (\<lfloor>y\<rfloor> + 1) :: rat) \<le> of_int z"
    by (simp only: of_int_le_iff)
  then have "(of_int z :: rat) \<le> of_int \<lfloor>y\<rfloor> \<or> (of_int \<lfloor>y\<rfloor> :: rat) + 1 \<le> of_int z"
    by simp
  with f show ?thesis
    by (auto simp: roundHalfEven_def Let_def)
qed

lemma roundHalfEven_floor: "\<lfloor>y\<rfloor> \<le> roundHalfEven y" "roundHalfEven y \<le> \<lfloor>y\<rfloor> + 1"
  by (simp_all add: roundHalfEven_def Let_def)

lemma roundHalfEven_of_int [simp]: "roundHalfEven (of_int n) = n"
  by (simp add: roundHalfEven_def)

lemma bitlen_pos: "0 < n \<Longrightarrow> 1 \<le> bitlen n"
  using bitlen_eq_zero_iff [of n] bitlen_nonneg [of n] by linarith

lemma floorLog2_bounds:
  assumes "0 < x"
  shows "2 powi floorLog2 x \<le> x" and "x < 2 powi (floorLog2 x + 1)"
proof -
  have "2 powi floorLog2 x \<le> x \<and> x < 2 powi (floorLog2 x + 1)"
  proof (cases "1 \<le> x")
    case True
    define n where "n = \<lfloor>x\<rfloor>"
    define k where "k = bitlen n - 1"
    have n: "0 < n" using True by (simp add: n_def)
    have k: "0 \<le> k" using bitlen_pos [OF n] by (simp add: k_def)
    have fl: "floorLog2 x = k" using True by (simp add: floorLog2_def k_def n_def)
    from bitlen_bounds [OF n]
    have "2 ^ nat k \<le> n" and "n + 1 \<le> 2 ^ nat (k + 1)"
      using k by (simp_all add: k_def)
    then have "(of_int (2 ^ nat k) :: rat) \<le> of_int n"
      and "(of_int (n + 1) :: rat) \<le> of_int (2 ^ nat (k + 1))"
      by (simp_all only: of_int_le_iff)
    then have "(2::rat) ^ nat k \<le> of_int n" and "(of_int n :: rat) + 1 \<le> 2 ^ nat (k + 1)"
      by simp_all
    moreover have "of_int n \<le> x" "x < of_int n + 1" unfolding n_def by linarith+
    ultimately have "(2::rat) ^ nat k \<le> x" "x < 2 ^ nat (k + 1)" by linarith+
    then show ?thesis using k by (simp add: fl power_int_nonneg_exp)
  next
    case False
    define c where "c = \<lceil>1 / x\<rceil> - 1"
    define j where "j = bitlen c"
    have inv: "1 < 1 / x" using False assms by simp
    have c: "0 < c" using inv unfolding c_def by linarith
    have j: "1 \<le> j" using bitlen_pos [OF c] by (simp add: j_def)
    have fl: "floorLog2 x = - j" using False by (simp add: floorLog2_def j_def c_def)
    from bitlen_bounds [OF c]
    have "2 ^ nat (j - 1) \<le> c" and "c + 1 \<le> 2 ^ nat j"
      by (simp_all add: j_def)
    then have "(of_int (2 ^ nat (j - 1)) :: rat) \<le> of_int c"
      and "(of_int (c + 1) :: rat) \<le> of_int (2 ^ nat j)"
      by (simp_all only: of_int_le_iff)
    then have "(2::rat) ^ nat (j - 1) \<le> of_int c" and "(of_int c :: rat) + 1 \<le> 2 ^ nat j"
      by simp_all
    moreover have "of_int c < 1 / x" "1 / x \<le> of_int c + 1"
      unfolding c_def by linarith+
    ultimately have lo: "(2::rat) ^ nat (j - 1) < 1 / x" and hi: "1 / x \<le> 2 ^ nat j"
      by linarith+
    have "1 / 2 ^ nat j \<le> x"
      using hi assms by (simp add: field_simps)
    moreover have "x < 1 / 2 ^ nat (j - 1)"
      using lo assms by (simp add: field_simps)
    moreover have "2 powi (- j) = (1::rat) / 2 ^ nat j"
      using j by (simp add: power_int_def field_simps)
    moreover have "2 powi (- j + 1) = (1::rat) / 2 ^ nat (j - 1)"
      using j by (simp add: power_int_def field_simps nat_diff_distrib)
    ultimately show ?thesis by (simp add: fl)
  qed
  then show "2 powi floorLog2 x \<le> x" and "x < 2 powi (floorLog2 x + 1)" by simp_all
qed


lemma scaled_bounds:
  assumes "x \<noteq> 0"
  shows "\<bar>x / 2 powi exponentOf x\<bar> < 2 ^ 53"
    and "- 1074 < exponentOf x \<Longrightarrow> 2 ^ 52 \<le> \<bar>x / 2 powi exponentOf x\<bar>"
proof -
  define fl where "fl = floorLog2 \<bar>x\<bar>"
  define e where "e = exponentOf x"
  define P where "P = (2::rat) powi e"
  define a where "a = \<bar>x\<bar>"
  have pos: "0 < \<bar>x\<bar>" using assms by simp
  have P: "0 < P" by (simp add: P_def)
  have hi: "a < 2 powi (fl + 1)" and lo: "2 powi fl \<le> a"
    using floorLog2_bounds [OF pos] by (simp_all add: fl_def a_def)
  have split: "(2::rat) powi (fl + 1) = 2 powi (fl - 52) * 2 powi 53"
    using power_int_add [of "2::rat" "fl - 52" 53] by (simp add: add.commute del: power_int_numeral)
  have "fl - 52 \<le> e" by (simp add: e_def exponentOf_def fl_def)
  then have "(2::rat) powi (fl - 52) \<le> P"
    unfolding P_def by (rule power_int_increasing) simp
  then have "(2::rat) powi (fl - 52) * 2 powi 53 \<le> P * 2 powi 53"
    by (rule mult_right_mono) simp
  with hi split have "a < P * 2 powi 53"
    by (simp only:)
  then have "a / P < 2 powi 53"
    using P by (simp only: pos_divide_less_eq mult.commute)
  moreover have abs: "\<bar>x / 2 powi exponentOf x\<bar> = a / P"
    using P by (simp add: a_def P_def e_def)
  ultimately show "\<bar>x / 2 powi exponentOf x\<bar> < 2 ^ 53"
    by simp
  show "2 ^ 52 \<le> \<bar>x / 2 powi exponentOf x\<bar>" if "- 1074 < exponentOf x"
  proof -
    from that have "fl = e + 52" by (simp add: e_def exponentOf_def fl_def)
    then have "(2::rat) powi fl = P * 2 powi 52"
      using power_int_add [of "2::rat" e 52] by (simp add: P_def del: power_int_numeral)
    with lo have "2 powi 52 * P \<le> a" by (simp only: mult.commute)
    then have "2 powi 52 \<le> a / P"
      using P by (simp only: pos_le_divide_eq)
    with abs show ?thesis by simp
  qed
qed


lemma exponentOf_ge: "- 1074 \<le> exponentOf x"
  by (simp add: exponentOf_def)

lemma roundToGrid_nearest:
  assumes "x \<noteq> 0" and "isDouble d"
  shows "\<bar>roundToGrid x - x\<bar> \<le> \<bar>d - x\<bar>"
proof -
  define e where "e = exponentOf x"
  define P where "P = (2::rat) powi e"
  define y where "y = x / P"
  define m where "m = roundHalfEven y"
  have P: "0 < P" by (simp add: P_def)
  have yP: "y * P = x" using P by (simp add: y_def)
  have r: "roundToGrid x = of_int m * P"
    by (simp add: roundToGrid_def m_def y_def P_def e_def)
  from assms(2) obtain n f where n: "\<bar>n\<bar> < 2 ^ 53" and f: "- 1074 \<le> f"
    and d: "d = of_int n * 2 powi f"
    by (auto simp: isDouble_def)
  define d' where "d' = d / P"
  have d'P: "d' * P = d" using P by (simp add: d'_def)
  have "\<bar>of_int m - y\<bar> \<le> \<bar>d' - y\<bar>"
  proof (cases "e \<le> f")
    case True
    then have "(2::rat) powi f = 2 powi (f - e) * P"
      using power_int_add [of "2::rat" "f - e" e] by (simp add: P_def)
    moreover have "(2::rat) powi (f - e) = of_int (2 ^ nat (f - e))"
      using True by (simp add: power_int_nonneg_exp)
    ultimately have "d' = of_int (n * 2 ^ nat (f - e))"
      using P by (simp add: d'_def d)
    then show ?thesis
      unfolding m_def by (simp only: roundHalfEven_nearest)
  next
    case False
    then have "- 1074 < exponentOf x" using f by (simp add: e_def)
    then have big: "2 ^ 52 \<le> \<bar>y\<bar>"
      using scaled_bounds(2) [OF assms(1)] by (simp add: y_def P_def e_def)
    have "(2::rat) powi f = 2 powi (f - e) * P"
      using power_int_add [of "2::rat" "f - e" e] by (simp add: P_def)
    then have "d' = of_int n * 2 powi (f - e)"
      using P by (simp add: d'_def d)
    then have "\<bar>d'\<bar> = \<bar>of_int n\<bar> * 2 powi (f - e)"
      by (simp add: abs_mult)
    moreover have "(2::rat) powi (f - e) \<le> 2 powi (- 1)"
      using False by (intro power_int_increasing) simp_all
    then have "\<bar>of_int n :: rat\<bar> * 2 powi (f - e) \<le> \<bar>of_int n\<bar> * 2 powi (- 1)"
      by (rule mult_left_mono) simp
    ultimately have "\<bar>d'\<bar> \<le> \<bar>of_int n\<bar> * (1 / 2)"
      by simp
    moreover have "\<bar>of_int n :: rat\<bar> < 2 ^ 53"
      using n by (metis of_int_abs of_int_less_iff of_int_numeral of_int_power)
    ultimately have small: "\<bar>d'\<bar> < 2 ^ 52" by simp
    define s :: int where "s = (if 0 < y then 2 ^ 52 else - (2 ^ 52))"
    have "\<bar>of_int m - y\<bar> \<le> \<bar>of_int s - y\<bar>"
      unfolding m_def by (rule roundHalfEven_nearest)
    also have "\<bar>of_int s - y\<bar> = \<bar>y\<bar> - 2 ^ 52"
      using big by (auto simp: s_def)
    also have "\<dots> \<le> \<bar>d' - y\<bar>"
      using small by linarith
    finally show ?thesis .
  qed
  then have "\<bar>of_int m - y\<bar> * P \<le> \<bar>d' - y\<bar> * P"
    using P by (simp add: mult_right_mono)
  moreover have "\<bar>of_int m - y\<bar> * P = \<bar>(of_int m - y) * P\<bar>"
    and "\<bar>d' - y\<bar> * P = \<bar>(d' - y) * P\<bar>"
    using P by (simp_all add: abs_mult)
  moreover have "(of_int m - y) * P = roundToGrid x - x" and "(d' - y) * P = d - x"
    by (simp_all add: r left_diff_distrib yP d'P)
  ultimately show ?thesis by simp
qed


lemma roundHalfEven_le: "y < of_int K \<Longrightarrow> roundHalfEven y \<le> K"
proof -
  assume "y < of_int K"
  then have "\<lfloor>y\<rfloor> < K" by linarith
  then show ?thesis using roundHalfEven_floor(2) [of y] by linarith
qed

lemma roundHalfEven_ge: "of_int K \<le> y \<Longrightarrow> K \<le> roundHalfEven y"
proof -
  assume "of_int K \<le> y"
  then have "K \<le> \<lfloor>y\<rfloor>" by linarith
  then show ?thesis using roundHalfEven_floor(1) [of y] by linarith
qed

lemma roundHalfEven_less_half: "y < of_int K - 1 / 2 \<Longrightarrow> roundHalfEven y \<le> K - 1"
proof -
  assume a: "y < of_int K - 1 / 2"
  have f: "of_int \<lfloor>y\<rfloor> \<le> y" by linarith
  have "\<lfloor>y\<rfloor> \<le> K - 1" using a by linarith
  then consider "\<lfloor>y\<rfloor> = K - 1" | "\<lfloor>y\<rfloor> + 1 \<le> K - 1" by linarith
  then show ?thesis
  proof cases
    case 1
    then have "y - of_int \<lfloor>y\<rfloor> < 1 / 2" using a by simp
    then show ?thesis using 1 by (simp add: roundHalfEven_def Let_def)
  next
    case 2
    then show ?thesis using roundHalfEven_floor(2) [of y] by linarith
  qed
qed

lemma roundHalfEven_ge_half:
  assumes "of_int K - 1 / 2 \<le> y" and "even K"
  shows "K \<le> roundHalfEven y"
proof -
  have f: "y < of_int \<lfloor>y\<rfloor> + 1" by linarith
  have "K - 1 \<le> \<lfloor>y\<rfloor>" using assms(1) by linarith
  then consider "\<lfloor>y\<rfloor> = K - 1" | "K \<le> \<lfloor>y\<rfloor>" by linarith
  then show ?thesis
  proof cases
    case 1
    then have "1 / 2 \<le> y - of_int \<lfloor>y\<rfloor>" using assms(1) by simp
    moreover have "odd \<lfloor>y\<rfloor>" using 1 assms(2) by simp
    ultimately show ?thesis using 1 by (auto simp: roundHalfEven_def Let_def)
  next
    case 2
    then show ?thesis using roundHalfEven_floor(1) [of y] by linarith
  qed
qed

lemma roundHalfEven_minus: "roundHalfEven (- y) = - roundHalfEven y"
proof (cases "y = of_int \<lfloor>y\<rfloor>")
  case True
  then obtain n where "y = of_int n" ..
  then show ?thesis by (simp flip: of_int_minus)
next
  case False
  moreover have "of_int \<lfloor>y\<rfloor> \<le> y" "y < of_int \<lfloor>y\<rfloor> + 1" by linarith+
  ultimately have "of_int \<lfloor>y\<rfloor> < y" "y < of_int \<lfloor>y\<rfloor> + 1" by linarith+
  then have "of_int (- \<lfloor>y\<rfloor> - 1) \<le> - y" "- y < of_int (- \<lfloor>y\<rfloor> - 1) + 1"
    by simp_all
  then have fl: "\<lfloor>- y\<rfloor> = - \<lfloor>y\<rfloor> - 1"
    by (rule floor_unique)
  show ?thesis
    using False by (auto simp: roundHalfEven_def Let_def fl)
qed


lemma roundToGrid_minus: "roundToGrid (- x) = - roundToGrid x"
  by (simp add: roundToGrid_def exponentOf_def roundHalfEven_minus)

lemma roundToGrid_0: "roundToGrid 0 = 0"
  using roundHalfEven_of_int [of 0] by (simp add: roundToGrid_def)

lemma isDouble_minus: "isDouble (- r) = isDouble r"
proof -
  have "isDouble (- r)" if "isDouble r" for r
  proof -
    from that obtain m e where "\<bar>m\<bar> < 2 ^ 53" "- 1074 \<le> e" "e \<le> 971" "r = of_int m * 2 powi e"
      by (auto simp: isDouble_def)
    then have "\<bar>- m\<bar> < 2 ^ 53 \<and> - 1074 \<le> e \<and> e \<le> 971 \<and> - r = of_int (- m) * 2 powi e"
      by simp
    then show ?thesis unfolding isDouble_def by blast
  qed
  from this [of r] this [of "- r"] show ?thesis by auto
qed

lemma roundToGrid_pos:
  assumes "0 < x"
  shows "(2 powi 1024 \<le> roundToGrid x) = (2 powi 1024 - 2 powi 970 \<le> x)"
    and "x < 2 powi 1024 - 2 powi 970 \<Longrightarrow> isDouble (roundToGrid x)"
    and "0 \<le> roundToGrid x"
proof -
  define e where "e = exponentOf x"
  define P where "P = (2::rat) powi e"
  define y where "y = x / P"
  define m where "m = roundHalfEven y"
  define A where "A = (2::rat) powi 971"
  define r where "r = roundToGrid x"
  define B where "B = (2::rat) powi 1024"
  define H where "H = (2::rat) powi 970"
  define T where "T = B - H"
  note [simp del] = power_int_numeral
  have A: "0 < A" and P: "0 < P" by (simp_all add: A_def P_def)
  have "(2::rat) powi 1024 = 2 powi 971 * 2 powi 53"
    using power_int_add [of "2::rat" 971 53] by simp
  moreover have "(2::rat) powi 53 = 2 ^ 53" by (simp only: power_int_numeral)
  ultimately have B: "B = A * 2 ^ 53"
    unfolding A_def B_def by (simp only:)
  have AH: "A = H * 2"
    using power_int_add [of "2::rat" 970 1] by (simp add: A_def H_def)
  then have T: "T = A * 2 ^ 53 - A / 2"
    using B by (simp add: T_def)
  have yP: "y * P = x" using P by (simp add: y_def)
  have r: "r = of_int m * P"
    by (simp add: r_def roundToGrid_def m_def y_def P_def e_def)
  have ypos: "0 < y" using assms P by (simp add: y_def)
  have "\<bar>y\<bar> < 2 ^ 53"
    using scaled_bounds(1) [of x] assms by (simp add: y_def P_def e_def)
  then have ylt: "y < of_int (2 ^ 53)" using ypos by simp
  have m0: "0 \<le> m" unfolding m_def by (rule roundHalfEven_ge) (use ypos in simp)
  have m53: "m \<le> 2 ^ 53" unfolding m_def using ylt by (rule roundHalfEven_le)
  then have m53': "(of_int m :: rat) \<le> 2 ^ 53"
    by (metis of_int_le_iff of_int_numeral of_int_power)
  have m0': "(0::rat) \<le> of_int m" using m0 by simp
  have ege: "- 1074 \<le> e" by (simp add: e_def exponentOf_ge)
  show "0 \<le> roundToGrid x"
    using m0' P by (simp add: r [unfolded r_def])
  consider (lo) "e \<le> 970" | (mid) "e = 971" | (hi) "972 \<le> e" by linarith
  then have "(B \<le> r) = (T \<le> x) \<and> (x < T \<longrightarrow> isDouble r)"
  proof cases
    case lo
    have "P \<le> H"
      unfolding P_def H_def using lo by (intro power_int_increasing) simp_all
    also have "H = A / 2"
      using AH by simp
    finally have PA: "P \<le> A / 2" .
    have "r \<le> 2 ^ 53 * P"
      unfolding r using m53' P by (simp add: mult_right_mono)
    also have "\<dots> \<le> 2 ^ 53 * (A / 2)"
      using PA by (simp add: mult_left_mono)
    finally have rB: "r < B" using A B by simp
    have "x < 2 ^ 53 * P"
      using yP ylt P by (metis mult_strict_right_mono of_int_numeral of_int_power)
    also have "\<dots> \<le> 2 ^ 53 * (A / 2)"
      using PA by (simp add: mult_left_mono)
    finally have xT: "x < T" using A T by simp
    have "isDouble r"
    proof (cases "m = 2 ^ 53")
      case True
      have "(2::rat) powi (e + 1) = P * 2"
        using power_int_add [of "2::rat" e 1] by (simp add: P_def)
      then have "r = of_int (2 ^ 52) * 2 powi (e + 1)"
        using True by (simp add: r)
      moreover have "\<bar>2 ^ 52 :: int\<bar> < 2 ^ 53" by simp
      ultimately show ?thesis
        unfolding isDouble_def using ege lo
        by (intro exI [of _ "2 ^ 52"] exI [of _ "e + 1"]) simp
    next
      case False
      then have "\<bar>m\<bar> < 2 ^ 53" using m0 m53 by simp
      then show ?thesis
        unfolding isDouble_def using ege lo r
        by (intro exI [of _ m] exI [of _ e]) (simp add: P_def)
    qed
    with rB xT show ?thesis by simp
  next
    case mid
    then have PA: "P = A" by (simp add: P_def A_def)
    have iff: "(2 ^ 53 \<le> m) = (2 ^ 53 - 1 / 2 \<le> y)"
    proof
      assume "2 ^ 53 \<le> m"
      show "2 ^ 53 - 1 / 2 \<le> y"
      proof (rule ccontr)
        assume "\<not> 2 ^ 53 - 1 / 2 \<le> y"
        then have "y < of_int (2 ^ 53) - 1 / 2" by simp
        then have "m \<le> 2 ^ 53 - 1" unfolding m_def by (rule roundHalfEven_less_half)
        with \<open>2 ^ 53 \<le> m\<close> show False by simp
      qed
    next
      assume "2 ^ 53 - 1 / 2 \<le> y"
      then have "of_int (2 ^ 53) - 1 / 2 \<le> y" by simp
      then show "2 ^ 53 \<le> m" unfolding m_def by (rule roundHalfEven_ge_half) simp
    qed
    have "(B \<le> r) = (2 ^ 53 \<le> (of_int m :: rat))"
      using A by (simp add: B r PA mult.commute)
    also have "\<dots> = (2 ^ 53 \<le> m)"
      by (metis of_int_le_iff of_int_numeral of_int_power)
    also have "\<dots> = (2 ^ 53 - 1 / 2 \<le> y)" by (rule iff)
    also have "\<dots> = (A * (2 ^ 53 - 1 / 2) \<le> y * A)"
      using A by (simp add: mult.commute)
    also have "\<dots> = (T \<le> x)"
      using yP by (simp add: T PA right_diff_distrib mult.commute)
    finally have eq: "(B \<le> r) = (T \<le> x)" .
    have "isDouble r" if "x < T"
    proof -
      from that eq have "\<not> B \<le> r" by simp
      then have "\<not> 2 ^ 53 \<le> m"
        using \<open>(B \<le> r) = (2 ^ 53 \<le> (of_int m :: rat))\<close>
        by (metis of_int_le_iff of_int_numeral of_int_power)
      then have "\<bar>m\<bar> < 2 ^ 53" using m0 by simp
      then show ?thesis
        unfolding isDouble_def using mid r
        by (intro exI [of _ m] exI [of _ e]) (simp add: P_def)
    qed
    with eq show ?thesis by simp
  next
    case hi
    have "2 powi 972 \<le> P"
      unfolding P_def using hi by (intro power_int_increasing) simp_all
    moreover have "(2::rat) powi 972 = A * 2"
      using power_int_add [of "2::rat" 971 1] by (simp add: A_def)
    ultimately have PA: "A * 2 \<le> P" by simp
    have "- 1074 < exponentOf x" using hi by (simp add: e_def)
    then have "2 ^ 52 \<le> \<bar>y\<bar>"
      using scaled_bounds(2) [of x] assms by (simp add: y_def P_def e_def)
    then have big: "of_int (2 ^ 52) \<le> y" using ypos by simp
    then have "2 ^ 52 \<le> m" unfolding m_def by (rule roundHalfEven_ge)
    then have "(2 ^ 52 :: rat) \<le> of_int m"
      by (metis of_int_le_iff of_int_numeral of_int_power)
    then have "2 ^ 52 * (A * 2) \<le> of_int m * P"
      using PA A by (intro mult_mono) simp_all
    then have rB: "B \<le> r" by (simp add: B r)
    have "2 ^ 52 * (A * 2) \<le> y * P"
      using big PA A by (intro mult_mono) simp_all
    then have "B \<le> x" by (simp add: B yP)
    then have "T \<le> x" using A T B by simp
    with rB show ?thesis by simp
  qed
  then show "(2 powi 1024 \<le> roundToGrid x) = (2 powi 1024 - 2 powi 970 \<le> x)"
    and "x < 2 powi 1024 - 2 powi 970 \<Longrightarrow> isDouble (roundToGrid x)"
    unfolding B_def r_def T_def H_def by blast+
qed


lemma threshold_pos: "(0::rat) < 2 powi 1024 - 2 powi 970"
proof -
  have "(2::rat) powi 970 < 2 powi 1024"
    by (rule power_int_strict_increasing) simp_all
  then show ?thesis by linarith
qed

lemma toDouble_cases:
  "toDouble x =
     (if 2 powi 1024 - 2 powi 970 \<le> x then PosInfinity
      else if x \<le> - (2 powi 1024 - 2 powi 970) then NegInfinity
      else Fin (roundToGrid x))"
proof -
  define B where "B = (2::rat) powi 1024"
  define T where "T = (2::rat) powi 1024 - 2 powi 970"
  have T: "0 < T" unfolding T_def by (rule threshold_pos)
  have B: "0 < B" by (simp add: B_def)
  have td: "toDouble x =
     (if x = 0 then Fin 0
      else if B \<le> roundToGrid x then PosInfinity
      else if roundToGrid x \<le> - B then NegInfinity
      else Fin (roundToGrid x))"
    by (simp only: toDouble_def B_def)
  consider (zero) "x = 0" | (pos) "0 < x" | (neg) "x < 0" by linarith
  then have "toDouble x =
     (if T \<le> x then PosInfinity else if x \<le> - T then NegInfinity else Fin (roundToGrid x))"
  proof cases
    case zero
    with td have "toDouble x = Fin 0" by simp
    with zero T show ?thesis by (simp add: roundToGrid_0)
  next
    case pos
    from roundToGrid_pos(1) [OF pos] have "(B \<le> roundToGrid x) = (T \<le> x)"
      by (simp only: B_def T_def)
    moreover have "0 \<le> roundToGrid x" using pos by (rule roundToGrid_pos(3))
    ultimately show ?thesis using pos T B td by auto
  next
    case neg
    then have pos: "0 < - x" by simp
    from roundToGrid_pos(1) [OF pos] have "(B \<le> roundToGrid (- x)) = (T \<le> - x)"
      by (simp only: B_def T_def)
    moreover have "0 \<le> roundToGrid (- x)" using pos by (rule roundToGrid_pos(3))
    moreover have "roundToGrid x = - roundToGrid (- x)"
      by (simp add: roundToGrid_minus)
    ultimately show ?thesis using neg T B td by auto
  qed
  then show ?thesis by (simp only: T_def)
qed

lemma isDouble_0: "isDouble 0"
  unfolding isDouble_def by (intro exI [of _ 0]) simp

lemma roundToGrid_isDouble:
  assumes "\<bar>x\<bar> < 2 powi 1024 - 2 powi 970"
  shows "isDouble (roundToGrid x)"
proof -
  consider (zero) "x = 0" | (pos) "0 < x" | (neg) "x < 0" by linarith
  then show ?thesis
  proof cases
    case zero
    then show ?thesis by (simp add: roundToGrid_0 isDouble_0)
  next
    case pos
    with assms show ?thesis by (intro roundToGrid_pos(2)) simp_all
  next
    case neg
    with assms have "isDouble (roundToGrid (- x))" by (intro roundToGrid_pos(2)) simp_all
    then show ?thesis by (simp add: roundToGrid_minus isDouble_minus)
  qed
qed

lemma toDouble_nearest:
  assumes "\<bar>x\<bar> < 2 powi 1024 - 2 powi 970"
  shows "\<exists>r. toDouble x = Fin r \<and> isDouble r \<and> (\<forall>d. isDouble d \<longrightarrow> \<bar>r - x\<bar> \<le> \<bar>d - x\<bar>)"
proof -
  have "toDouble x = Fin (roundToGrid x)"
    using assms by (simp add: toDouble_cases del: power_int_numeral) linarith
  moreover have "isDouble (roundToGrid x)"
    using assms by (rule roundToGrid_isDouble)
  moreover have "\<bar>roundToGrid x - x\<bar> \<le> \<bar>d - x\<bar>" if "isDouble d" for d
  proof (cases "x = 0")
    case True
    then show ?thesis by (simp add: roundToGrid_0)
  next
    case False
    then show ?thesis using that by (rule roundToGrid_nearest)
  qed
  ultimately show ?thesis by blast
qed

lemma isDouble_bounded:
  assumes "isDouble x"
  shows "\<bar>x\<bar> < 2 powi 1024 - 2 powi 970"
proof -
  define A where "A = (2::rat) powi 971"
  note [simp del] = power_int_numeral
  from assms obtain m e where m: "\<bar>m\<bar> < 2 ^ 53" and e: "e \<le> 971"
    and x: "x = of_int m * 2 powi e"
    by (auto simp: isDouble_def)
  have A: "0 < A" by (simp add: A_def)
  have "(2::rat) powi 1024 = 2 powi 971 * 2 powi 53"
    using power_int_add [of "2::rat" 971 53] by simp
  moreover have "(2::rat) powi 53 = 2 ^ 53" by (simp only: power_int_numeral)
  moreover have "(2::rat) powi 971 = 2 powi 970 * 2"
    using power_int_add [of "2::rat" 970 1] by simp
  ultimately have T: "(2::rat) powi 1024 - 2 powi 970 = A * 2 ^ 53 - A / 2"
    by (simp add: A_def)
  have "\<bar>m\<bar> \<le> 2 ^ 53 - 1" using m by simp
  then have "(of_int \<bar>m\<bar> :: rat) \<le> of_int (2 ^ 53 - 1)" by (simp only: of_int_le_iff)
  then have m': "\<bar>of_int m :: rat\<bar> \<le> 2 ^ 53 - 1" by simp
  have P: "(2::rat) powi e \<le> A" "(0::rat) < 2 powi e"
    unfolding A_def using e by (simp_all add: power_int_increasing)
  have "\<bar>x\<bar> = \<bar>of_int m\<bar> * 2 powi e" by (simp add: x abs_mult)
  also have "\<dots> \<le> (2 ^ 53 - 1) * A"
    using m' P by (intro mult_mono) simp_all
  also have "\<dots> < A * 2 ^ 53 - A / 2" using A by (simp add: algebra_simps)
  finally show ?thesis by (simp only: T)
qed

lemma toDouble_exact: "isDouble x \<Longrightarrow> toDouble x = Fin x"
proof -
  assume d: "isDouble x"
  from toDouble_nearest [OF isDouble_bounded [OF d]]
  obtain r where "toDouble x = Fin r" and "\<forall>d. isDouble d \<longrightarrow> \<bar>r - x\<bar> \<le> \<bar>d - x\<bar>"
    by blast
  with d have "\<bar>r - x\<bar> \<le> 0" by force
  with \<open>toDouble x = Fin r\<close> show ?thesis by simp
qed

text \<open>
  The rounding in terms of the doubles alone: a result of magnitude below the overflow
  threshold becomes a double nearest to it, a result that is a double is kept, and a
  result at or beyond the threshold becomes the infinity of its sign.
\<close>

lemma toDouble_threshold:
  "toDouble x =
     (if overflowThreshold \<le> x then PosInfinity
      else if x \<le> - overflowThreshold then NegInfinity
      else Fin (roundToGrid x))"
  unfolding overflowThreshold_def by (rule toDouble_cases)

text \<open>
  The doubles are exactly the rationals that rounding leaves unchanged.
\<close>

lemma isDouble_iff_fixpoint: "isDouble x \<longleftrightarrow> toDouble x = Fin x"
proof
  assume "isDouble x"
  then show "toDouble x = Fin x" by (rule toDouble_exact)
next
  assume fp: "toDouble x = Fin x"
  have inside: "\<not> overflowThreshold \<le> x" "\<not> x \<le> - overflowThreshold"
    using fp by (auto simp add: toDouble_threshold split: if_splits)
  then have "\<bar>x\<bar> < 2 powi 1024 - 2 powi 970"
    unfolding overflowThreshold_def by linarith
  then have "isDouble (roundToGrid x)" by (rule roundToGrid_isDouble)
  moreover have "roundToGrid x = x"
    using fp inside by (simp add: toDouble_threshold)
  ultimately show "isDouble x" by simp
qed


lemma toDouble_0: "toDouble 0 = Fin 0"
  by (simp add: toDouble_def)

lemma isDouble_of_int: "\<bar>n\<bar> < 2 ^ 53 \<Longrightarrow> isDouble (of_int n)"
  unfolding isDouble_def by (intro exI [of _ n] exI [of _ 0]) simp

lemma toDouble_25: "toDouble 25 = Fin 25"
  using toDouble_exact [OF isDouble_of_int [of 25]] by simp

lemma toDouble_500: "toDouble 500 = Fin 500"
  using toDouble_exact [OF isDouble_of_int [of 500]] by simp




section \<open>Properties of the dictionary and string operations\<close>

lemma map_of_setProperty: "map_of (setProperty ps k v) = (map_of ps)(k \<mapsto> v)"
  by (induction ps) (auto simp: fun_eq_iff)

lemma keys_setProperty: "fst ` set (setProperty ps k v) = insert k (fst ` set ps)"
  by (simp add: dom_map_of_conv_image_fst [symmetric] map_of_setProperty)

lemma length_setProperty:
  "length (setProperty ps k v) = (if k \<in> fst ` set ps then length ps else Suc (length ps))"
proof (induction ps)
  case Nil
  show ?case by simp
next
  case (Cons p ps)
  then show ?case by (cases p) force
qed

lemma replaceFirstByEmpty_prefix: "p \<noteq> [] \<Longrightarrow> replaceFirstByEmpty (p @ s) p = s"
  by (cases p) (simp_all add: startsWith_def)

lemma generateId_not_inherited:
  "generateId env \<notin> set objectPrototypeKeys" "generateId env \<noteq> ''active''"
  by (simp_all add: generateId_def objectPrototypeKeys_def)

lemma generateId_exampleEnv: "generateId exampleEnv = ''strategy-1000-500''"
  by (simp add: generateId_def exampleEnv_def showFloor_def showInt_def toDouble_500
      showNat.simps digit_def)

lemma ensureClient_present:
  "hyperliquidClient st = Some c \<Longrightarrow> ensureClient env st = (st, [])"
  by (simp add: ensureClient_def)

lemma strategies_ensureClient:
  "ensureClient env st = (st1, calls) \<Longrightarrow> strategies st1 = strategies st"
  by (auto simp: ensureClient_def split: option.splits prod.splits)

section \<open>authenticate\<close>

text \<open>
  C5. An \<open>authenticate\<close> call in which the signing key and the public address are both
  absent (or empty) throws \<open>InvalidParams\<close>, and the whole session state, the stored
  credentials \<open>privateKey\<close>, \<open>walletAddress\<close>, \<open>testnet\<close> and \<open>vaultAddress\<close> included,
  is what it was before the call; the SDK is not called.
\<close>

theorem authenticate_without_credentials:
  assumes "\<not> truthy_string (args_privateKey args)"
    and "\<not> truthy_string (args_walletAddress args)"
  shows "authenticate env args st =
           (Inl (McpError InvalidParams ''Either privateKey or walletAddress must be provided''),
            st, [])"
  using assms by (simp add: authenticate_def)

theorem authenticate_without_credentials_witness:
  "authenticate exampleEnv (noArguments\<lparr>args_testnet := Some False\<rparr>) tradingState =
     (Inl (McpError InvalidParams ''Either privateKey or walletAddress must be provided''),
      tradingState, [])"
  using authenticate_without_credentials
    [of "noArguments\<lparr>args_testnet := Some False\<rparr>" exampleEnv tradingState]
  by (simp add: noArguments_def)

section \<open>place_order\<close>

text \<open>
  What \<open>place_order\<close> does with a limit order that has no price, once a client exists
  and a signing key is stored: it calls \<open>connect()\<close>, and whatever is thrown inside the
  \<open>try\<close> block, the \<open>InvalidParams\<close> error for the missing price included, leaves the
  handler as an \<open>InternalError\<close>.
\<close>

lemma place_order_limit_without_price:
  assumes "hyperliquidClient st = Some c"
    and "truthy_string (privateKey (userCredentials st))"
    and "truthy_string (args_symbol args)" and "truthy_string (args_side args)"
    and "args_size args = Some n" and "truthy_number n"
    and "args_orderType args = Some ''limit''"
    and "args_price args = None"
  shows "place_order env args st =
     (Inl (McpError InternalError
        (''Failed to place order: '' @
         (case connect env of
            Some msg \<Rightarrow> msg
          | None \<Rightarrow> mcpErrorMessage env InvalidParams ''Price is required for limit orders''))),
      st, [Connect])"
  using assms
  by (simp add: place_order_def submitOrder_def ensureClient_present Let_def
      split: option.splits)

text \<open>
  C1. The claim is that a limit order without a price yields \<open>InvalidParams\<close> before the
  external client is contacted. In the example world, with a client and a signing key
  in place, the handler first calls \<open>connect()\<close> and then throws \<open>InternalError\<close>, whose
  message wraps the message of the \<open>InvalidParams\<close> error thrown inside the \<open>try\<close> block.
\<close>

theorem place_order_limit_without_price_example:
  "place_order exampleEnv limitWithoutPrice tradingState =
     (Inl (McpError InternalError
        ''Failed to place order: MCP error -32602: Price is required for limit orders''),
      tradingState, [Connect])"
  by (simp add: place_order_def submitOrder_def ensureClient_def limitWithoutPrice_def
      noArguments_def tradingState_def exampleCredentials_def exampleEnv_def codeNumber_def
      Let_def)

theorem place_order_limit_without_price_example_witness:
  "snd (snd (place_order exampleEnv limitWithoutPrice tradingState)) = [Connect]"
  using place_order_limit_without_price_example by simp

text \<open>
  C9, as amended. A \<open>place_order\<close> call whose size is zero, NaN or absent throws
  \<open>InvalidParams\<close>; the state is unchanged and the SDK is not called, so no order is
  submitted. (The handler tests the size for truthiness; it does not compare it with
  zero.)
\<close>

theorem place_order_size_zero:
  assumes "args_size args = None \<or> args_size args = Some NaN \<or> args_size args = Some (Fin 0)"
  shows "place_order env args st =
     (Inl (McpError InvalidParams ''Symbol, side, size, and orderType are required''), st, [])"
  using assms by (auto simp: place_order_def)

theorem place_order_size_zero_witness:
  "place_order exampleEnv (marketSellNegative\<lparr>args_size := Some (Fin 0)\<rparr>) tradingState =
     (Inl (McpError InvalidParams ''Symbol, side, size, and orderType are required''),
      tradingState, [])"
  using place_order_size_zero
    [of "marketSellNegative\<lparr>args_size := Some (Fin 0)\<rparr>" exampleEnv tradingState]
  by simp

text \<open>
  C9 as stated fails for a negative size: a market order of size -1 passes the checks
  and is submitted with \<open>sz = -1\<close>.
\<close>

theorem place_order_negative_size_submitted:
  "place_order exampleEnv marketSellNegative tradingState =
     (Inr (JsonText (JObject [(''status'', JString ''ok'')])), tradingState,
      [Connect,
       PlaceOrder
         \<lparr> coin = ''BTC-PERP'', is_buy = False, sz = Fin (- 1), reduce_only = False,
           limit_px = None, order_type = JObject [(''market'', JObject [])] \<rparr>])"
  by (simp add: place_order_def submitOrder_def ensureClient_def marketSellNegative_def
      noArguments_def tradingState_def exampleCredentials_def exampleEnv_def Let_def)

section \<open>activate_strategy\<close>

lemma activate_strategy_missing_id:
  assumes "\<not> truthy_string (args_strategyId args)"
  shows "activate_strategy env args st =
     (Inl (McpError InvalidParams ''StrategyId and active status are required''), st, [])"
  using assms by (simp add: activate_strategy_def)

text \<open>
  C3, as amended. An \<open>activate_strategy\<close> call whose \<open>strategyId\<close> is a non-empty string
  that is neither the id of a stored strategy record nor the name of a property that
  \<open>strategies\<close> inherits throws \<open>InvalidRequest\<close> with the message
  \<open>Strategy <id> not found\<close>, and the whole session state, the strategy map included,
  is unchanged.
\<close>

theorem activate_strategy_unknown_id:
  assumes "args_strategyId args = Some k" and "k \<noteq> []"
    and "k \<notin> fst ` set (strategies st)"
    and "k \<notin> set objectPrototypeKeys"
    and "\<not> (k = ''active'' \<and> objectPrototypeActive st = Some True)"
  shows "activate_strategy env args st =
     (Inl (McpError InvalidRequest (''Strategy '' @ k @ '' not found'')), st, [])"
proof -
  have none: "map_of (strategies st) k = None"
    using assms(3) by (simp add: map_of_eq_None_iff)
  have "getProperty (objectPrototypeActive st) (strategies st) k = Undefined \<or>
        getProperty (objectPrototypeActive st) (strategies st) k = InheritedActive False"
    using none assms(4,5) by (auto simp: getProperty_def split: option.splits)
  then show ?thesis
    using assms(1,2) by (auto simp: activate_strategy_def Let_def)
qed

theorem activate_strategy_unknown_id_witness:
  "activate_strategy exampleEnv
     (noArguments\<lparr>args_strategyId := Some ''strategy-7-7'', args_active := Some True\<rparr>)
     alphaState =
   (Inl (McpError InvalidRequest ''Strategy strategy-7-7 not found''), alphaState, [])"
  using activate_strategy_unknown_id
    [of "noArguments\<lparr>args_strategyId := Some ''strategy-7-7'', args_active := Some True\<rparr>"
        "''strategy-7-7''" alphaState exampleEnv]
  by (simp add: noArguments_def alphaState_def initialState_def objectPrototypeKeys_def)

text \<open>
  C3 as stated names the error \<open>NotFound\<close>. The code the handler throws for an id that
  matches no record is \<open>InvalidRequest\<close>, and for an empty id \<open>InvalidParams\<close>; the SDK's
  error codes have no \<open>NotFound\<close>.
\<close>

theorem activate_strategy_unknown_id_error_code:
  "fst (activate_strategy exampleEnv
     (noArguments\<lparr>args_strategyId := Some ''strategy-7-7'', args_active := Some True\<rparr>)
     alphaState) = Inl (McpError InvalidRequest ''Strategy strategy-7-7 not found'') \<and>
   fst (activate_strategy exampleEnv
     (noArguments\<lparr>args_strategyId := Some [], args_active := Some True\<rparr>)
     alphaState) = Inl (McpError InvalidParams ''StrategyId and active status are required'')"
  by (simp add: activate_strategy_def noArguments_def alphaState_def initialState_def
      getProperty_def objectPrototypeKeys_def)

text \<open>
  An id that names an inherited property is found: the call succeeds although no
  record has that id.
\<close>

lemma activate_strategy_inherited_key:
  "activate_strategy exampleEnv
     (noArguments\<lparr>args_strategyId := Some ''constructor'', args_active := Some True\<rparr>)
     initialState = (Inr (Text ''Strategy constructor activated''), initialState, [])"
  by (simp add: activate_strategy_def noArguments_def initialState_def getProperty_def
      objectPrototypeKeys_def)


section \<open>create_strategy, the resource list and the strategy resource\<close>

lemma create_strategy_Inr:
  assumes "create_strategy env args st = (Inr r, st1, calls)"
  shows "st1 = st\<lparr>strategies := setProperty (strategies st) (generateId env)
          \<lparr> id = generateId env, name = the (args_name args),
            description = the (args_description args),
            config = the (args_config args), active = False \<rparr>\<rparr>"
  using assms by (auto simp add: create_strategy_def Let_def split: if_splits)

text \<open>
  Two successful \<open>create_strategy\<close> calls whose generated ids differ leave two distinct
  records, whatever their arguments.
\<close>

lemma create_strategy_twice_distinct_ids:
  assumes "create_strategy env args st = (Inr r, st1, calls)"
    and "create_strategy env' args st1 = (Inr r', st2, calls')"
    and "generateId env \<noteq> generateId env'"
  shows "map_of (strategies st2) (generateId env) =
           Some \<lparr> id = generateId env, name = the (args_name args),
                  description = the (args_description args),
                  config = the (args_config args), active = False \<rparr> \<and>
         map_of (strategies st2) (generateId env') =
           Some \<lparr> id = generateId env', name = the (args_name args),
                  description = the (args_description args),
                  config = the (args_config args), active = False \<rparr>"
  unfolding create_strategy_Inr [OF assms(2)] create_strategy_Inr [OF assms(1)]
  using assms(3) by (simp add: map_of_setProperty)

text \<open>
  C4. The claim is that two successive \<open>create_strategy\<close> calls with identical
  arguments get distinct ids and leave two records, also within one timestamp. With
  \<open>Date.now() = 1000\<close> and \<open>Math.random() = 0.5\<close> at both calls, both succeed with the
  id \<open>strategy-1000-500\<close>, and the second assigns to the key of the first: the map
  holds one record.
\<close>

theorem create_strategy_twice_same_id:
  "create_strategy exampleEnv alphaArguments initialState =
     (Inr (Text (''Created strategy '' @ [CHR 0x22] @ ''alpha'' @ [CHR 0x22] @
                 '' with ID: strategy-1000-500'')),
      alphaState, []) \<and>
   create_strategy exampleEnv alphaArguments alphaState =
     (Inr (Text (''Created strategy '' @ [CHR 0x22] @ ''alpha'' @ [CHR 0x22] @
                 '' with ID: strategy-1000-500'')),
      alphaState, []) \<and>
   map fst (strategies alphaState) = [''strategy-1000-500'']"
  by (simp add: create_strategy_def alphaArguments_def noArguments_def initialState_def
      alphaState_def alphaStrategy_def generateId_exampleEnv Let_def)

theorem create_strategy_twice_same_id_witness:
  "length (strategies (fst (snd (create_strategy exampleEnv alphaArguments
      (fst (snd (create_strategy exampleEnv alphaArguments initialState))))))) = 1"
  using create_strategy_twice_same_id by (simp add: alphaState_def)

text \<open>
  Without credentials the resource list is one strategy resource per stored record, in
  order, and holds no account entry; a successful \<open>create_strategy\<close> makes it one longer
  exactly when the generated id is not yet a key of the map.
\<close>

lemma ListResources_without_credentials:
  assumes "\<not> truthy_string (privateKey (userCredentials st))"
    and "\<not> truthy_string (walletAddress (userCredentials st))"
  shows "ListResources st = map strategyResource (strategies st)"
    and "\<forall>r \<in> set (ListResources st). resource_uri r \<noteq> ''hyperliquid://account''"
  using assms by (auto simp: ListResources_def strategyResource_def)

lemma create_strategy_grows_list:
  assumes "create_strategy env args st = (Inr r, st1, calls)"
  shows "length (ListResources st1) =
     (if generateId env \<in> fst ` set (strategies st) then length (ListResources st)
      else Suc (length (ListResources st)))"
  unfolding create_strategy_Inr [OF assms]
  by (simp add: ListResources_def length_setProperty)

text \<open>
  C8. The claim is that without credentials the list holds one strategy resource per
  record and no account entry, and that each successful \<open>create_strategy\<close> makes it one
  entry longer. The second \<open>create_strategy\<close> below succeeds and the list stays at one
  entry, since its id is the id of the first.
\<close>

theorem list_after_colliding_create:
  "create_strategy exampleEnv alphaArguments initialState =
     (Inr (Text (''Created strategy '' @ [CHR 0x22] @ ''alpha'' @ [CHR 0x22] @
                 '' with ID: strategy-1000-500'')),
      alphaState, []) \<and>
   create_strategy exampleEnv betaArguments alphaState =
     (Inr (Text (''Created strategy '' @ [CHR 0x22] @ ''beta'' @ [CHR 0x22] @
                 '' with ID: strategy-1000-500'')),
      betaState, []) \<and>
   ListResources initialState = [] \<and>
   ListResources alphaState =
     [Resource ''hyperliquid://strategy/strategy-1000-500'' ''application/json'' ''alpha''
        ''Trading strategy: first''] \<and>
   ListResources betaState =
     [Resource ''hyperliquid://strategy/strategy-1000-500'' ''application/json'' ''beta''
        ''Trading strategy: second'']"
  by (simp add: create_strategy_def alphaArguments_def betaArguments_def noArguments_def
      initialState_def alphaState_def betaState_def alphaStrategy_def betaStrategy_def
      generateId_exampleEnv Let_def ListResources_def strategyResource_def)

theorem list_after_colliding_create_witness:
  "length (ListResources betaState) = length (ListResources alphaState)"
  using list_after_colliding_create by simp

text \<open>
  Reading a strategy resource whose id is a key of the map returns the stored record.
\<close>

lemma readStrategy_own:
  assumes "map_of (strategies st) k = Some s"
  shows "ReadResource env (''hyperliquid://strategy/'' @ k) st =
     (Inr (Contents (''hyperliquid://strategy/'' @ k) ''application/json''
        (StrategyDocument s)), st, [])"
  using assms
  by (simp add: ReadResource_def readStrategy_def startsWith_def replaceFirstByEmpty_prefix
      getProperty_def Let_def)

text \<open>Which requests leave the record stored under a key as it is.\<close>

lemma strategies_authenticate:
  "strategies (fst (snd (authenticate env args st))) = strategies st"
  by (simp add: authenticate_def Let_def split: prod.splits)

lemma strategies_get_market_data:
  "strategies (fst (snd (get_market_data env args st))) = strategies st"
  by (auto simp: get_market_data_def Let_def split: prod.splits option.splits sum.splits
      dest: strategies_ensureClient)

lemma strategies_place_order:
  "strategies (fst (snd (place_order env args st))) = strategies st"
  by (auto simp: place_order_def Let_def split: prod.splits option.splits sum.splits
      dest: strategies_ensureClient)

lemma strategies_cancel_order:
  "strategies (fst (snd (cancel_order env args st))) = strategies st"
  by (auto simp: cancel_order_def Let_def split: prod.splits option.splits sum.splits
      dest: strategies_ensureClient)

lemma strategies_create_strategy:
  "generateId env \<noteq> k \<Longrightarrow>
   map_of (strategies (fst (snd (create_strategy env args st)))) k = map_of (strategies st) k"
  by (simp add: create_strategy_def Let_def map_of_setProperty)

lemma strategies_activate_strategy:
  "args_strategyId args \<noteq> Some k \<Longrightarrow>
   map_of (strategies (fst (snd (activate_strategy env args st)))) k = map_of (strategies st) k"
  by (cases "args_strategyId args")
    (auto simp: activate_strategy_def Let_def map_of_setProperty
      split: property.splits bool.splits)

lemma strategies_ReadResource:
  "strategies (fst (snd (ReadResource env uri st))) = strategies st"
  by (auto simp: ReadResource_def readAccount_def readStrategy_def Let_def
      split: prod.splits option.splits sum.splits property.splits
      dest: strategies_ensureClient)

lemma handleRequest_keeps_record:
  assumes "\<not> writesTo k (env, rq)"
  shows "map_of (strategies (handleRequest env rq st)) k = map_of (strategies st) k"
proof (cases rq)
  case ListResourcesRequest
  then show ?thesis by (simp add: handleRequest_def)
next
  case (ReadResourceRequest uri)
  then show ?thesis by (simp add: handleRequest_def strategies_ReadResource)
next
  case (CallToolRequest tool args)
  with assms have a: "tool = ''activate_strategy'' \<Longrightarrow> args_strategyId args \<noteq> Some k"
    and c: "tool = ''create_strategy'' \<Longrightarrow> generateId env \<noteq> k"
    by (auto simp: writesTo_def)
  show ?thesis
    using CallToolRequest a c
    by (simp add: handleRequest_def CallTool_def strategies_authenticate
        strategies_get_market_data strategies_place_order strategies_cancel_order
        strategies_create_strategy strategies_activate_strategy)
qed

lemma serve_keeps_record:
  assumes "\<forall>x \<in> set trace. \<not> writesTo k x"
  shows "map_of (strategies (serve trace st)) k = map_of (strategies st) k"
  using assms
proof (induction trace arbitrary: st)
  case Nil
  show ?case by simp
next
  case (Cons x trace)
  obtain env rq where x: "x = (env, rq)" by (cases x)
  from Cons.prems x have "\<not> writesTo k (env, rq)" by simp
  then have "map_of (strategies (handleRequest env rq st)) k = map_of (strategies st) k"
    by (rule handleRequest_keeps_record)
  moreover have "map_of (strategies (serve trace (handleRequest env rq st))) k =
      map_of (strategies (handleRequest env rq st)) k"
    using Cons.prems by (intro Cons.IH) simp
  ultimately show ?case using x by simp
qed

text \<open>
  The round trip that holds: after a successful \<open>create_strategy\<close> and any requests of
  which none is an \<open>activate_strategy\<close> on the generated id or a \<open>create_strategy\<close> that
  generates the same id again, reading the strategy resource at that id returns the
  creation arguments with \<open>active = false\<close>. With no request in between, this is the
  read right after the creation.
\<close>

lemma strategy_round_trip:
  assumes "create_strategy env args st = (Inr r, st1, calls)"
    and "\<forall>x \<in> set trace. \<not> writesTo (generateId env) x"
  shows "ReadResource env' (''hyperliquid://strategy/'' @ generateId env) (serve trace st1) =
     (Inr (Contents (''hyperliquid://strategy/'' @ generateId env) ''application/json''
        (StrategyDocument
           \<lparr> id = generateId env, name = the (args_name args),
             description = the (args_description args),
             config = the (args_config args), active = False \<rparr>)),
      serve trace st1, [])"
proof -
  have "map_of (strategies st1) (generateId env) =
      Some \<lparr> id = generateId env, name = the (args_name args),
             description = the (args_description args),
             config = the (args_config args), active = False \<rparr>"
    unfolding create_strategy_Inr [OF assms(1)] by (simp add: map_of_setProperty)
  then have "map_of (strategies (serve trace st1)) (generateId env) =
      Some \<lparr> id = generateId env, name = the (args_name args),
             description = the (args_description args),
             config = the (args_config args), active = False \<rparr>"
    using serve_keeps_record [OF assms(2), of st1] by simp
  then show ?thesis by (rule readStrategy_own)
qed

text \<open>
  C7. The claim is that reading the strategy resource of a created strategy returns
  its creation arguments with \<open>active = false\<close> as long as no \<open>activate_strategy\<close> call
  on its id came in between. Below, \<open>alpha\<close> is created, then \<open>beta\<close> in the same
  millisecond with the same random draw, and no \<open>activate_strategy\<close> is called: the
  resource at the id returned for \<open>alpha\<close> holds the name, description and config of
  \<open>beta\<close>.
\<close>

theorem read_after_colliding_create:
  "create_strategy exampleEnv alphaArguments initialState =
     (Inr (Text (''Created strategy '' @ [CHR 0x22] @ ''alpha'' @ [CHR 0x22] @
                 '' with ID: strategy-1000-500'')),
      alphaState, []) \<and>
   create_strategy exampleEnv betaArguments alphaState =
     (Inr (Text (''Created strategy '' @ [CHR 0x22] @ ''beta'' @ [CHR 0x22] @
                 '' with ID: strategy-1000-500'')),
      betaState, []) \<and>
   ReadResource exampleEnv ''hyperliquid://strategy/strategy-1000-500'' betaState =
     (Inr (Contents ''hyperliquid://strategy/strategy-1000-500'' ''application/json''
        (StrategyDocument
           \<lparr> id = ''strategy-1000-500'', name = ''beta'', description = ''second'',
             config = JObject [], active = False \<rparr>)),
      betaState, [])"
  by (simp add: create_strategy_def alphaArguments_def betaArguments_def noArguments_def
      initialState_def alphaState_def betaState_def alphaStrategy_def betaStrategy_def
      generateId_exampleEnv Let_def ReadResource_def readStrategy_def
      startsWith_def getProperty_def)

theorem read_after_colliding_create_witness:
  "contents_text (projr (fst (ReadResource exampleEnv
      ''hyperliquid://strategy/strategy-1000-500'' betaState))) =
   StrategyDocument betaStrategy"
  using read_after_colliding_create by (simp add: betaStrategy_def)

section \<open>The account snapshot\<close>

lemma keys_priceMap:
  "fst ` set (foldl (setPrice env) m ctxs) \<subseteq> fst ` set m \<union> ctx_coin ` set ctxs"
proof (induction ctxs arbitrary: m)
  case Nil
  show ?case by simp
next
  case (Cons x xs)
  have "fst ` set (setPrice env m x) \<subseteq> insert (ctx_coin x) (fst ` set m)"
    by (auto simp: setPrice_def keys_setProperty)
  with Cons [of "setPrice env m x"] show ?case by auto
qed

lemma buildPriceMap_no_entry:
  assumes "c \<notin> ctx_coin ` set ctxs" and "c \<noteq> ''USDC-SPOT''"
  shows "map_of (buildPriceMap env protoActive ctxs) c = None"
proof -
  have "c \<notin> fst ` set (foldl (setPrice env) [] ctxs)"
    using keys_priceMap [of env "[]" ctxs] assms(1) by auto
  then have "map_of (foldl (setPrice env) [] ctxs) c = None"
    by (simp add: map_of_eq_None_iff)
  then show ?thesis
    using assms(2) by (simp add: buildPriceMap_def Let_def map_of_setProperty)
qed


text \<open>
  When both spot fetches succeed and there is a balance, the spot section of the
  response is the list of balances, each enriched with the price map built from the
  asset contexts.
\<close>

lemma fetchSpot_enriches:
  assumes "getSpotClearinghouseState env a = Inr (Some bs)" and "bs \<noteq> []"
    and "getSpotMetaAndAssetCtxs env = Inr (spotMeta, ctxs)"
  shows "fetchSpot env protoActive a =
     (Some (map (enrich env protoActive (buildPriceMap env protoActive ctxs)) bs),
      [GetSpotClearinghouseState a, GetSpotMetaAndAssetCtxs])"
  using assms by (simp add: fetchSpot_def)

lemma buildPriceMap_exampleCtxs:
  "buildPriceMap exampleEnv None exampleCtxs =
     [(''HYPE-SPOT'', Fin (5 / 2)), (''USDC-SPOT'', Fin 1)]"
  by (simp add: buildPriceMap_def exampleCtxs_def setPrice_def exampleEnv_def
      getProperty_def truthy_property_def objectPrototypeKeys_def Let_def)

text \<open>
  A read of the account resource in a world with two spot balances, of which only the
  first has an asset context.
\<close>

lemma account_read_example:
  "ReadResource spotEnv ''hyperliquid://account'' tradingState =
     (Inr (Contents ''hyperliquid://account'' ''application/json''
        (AccountDocument (Some
           \<lparr> perpetuals = JObject [],
             spot = Some
               [hypeBalance\<lparr>balance_price := Some (PriceNumber (Fin (5 / 2))),
                  balance_usdValue := Some (Fin 25)\<rparr>,
                purrBalance\<lparr>balance_price := Some (PriceNumber (Fin 0)),
                  balance_usdValue := Some (Fin 0)\<rparr>],
             network = ''testnet'' \<rparr>))),
      tradingState,
      [Connect, GetClearinghouseState ''0xabc'', GetSpotClearinghouseState ''0xabc'',
       GetSpotMetaAndAssetCtxs])"
  by (simp add: ReadResource_def readAccount_def ensureClient_def fetchSpot_def
      buildPriceMap_def setPrice_def enrich_def priceOf_def getProperty_def
      truthy_property_def objectPrototypeKeys_def tradingState_def exampleCredentials_def
      spotEnv_def exampleEnv_def exampleCtxs_def hypeBalance_def purrBalance_def Let_def
      toDouble_25 toDouble_0)






text \<open>
  C10, as amended. When both spot fetches succeed, a balance whose coin is not the
  stable coin, has no asset context and is not the name of an inherited property, and
  whose quantity parses to a finite number, is returned in the spot section with the
  price 0 and the \<open>usdValue\<close> 0 added and nothing else changed; the spot section is the
  list of all balances, enriched, and carries no error.
\<close>

theorem spot_balance_without_price:
  assumes "getSpotClearinghouseState env a = Inr (Some bs)"
    and "getSpotMetaAndAssetCtxs env = Inr (spotMeta, ctxs)"
    and "b \<in> set bs"
    and "balance_coin b \<notin> ctx_coin ` set ctxs"
    and "balance_coin b \<noteq> ''USDC-SPOT''"
    and "balance_coin b \<notin> set objectPrototypeKeys"
    and "\<not> (balance_coin b = ''active'' \<and> protoActive = Some True)"
    and "parseFloat env (balance_total b) = Fin q"
  shows "fetchSpot env protoActive a =
           (Some (map (enrich env protoActive (buildPriceMap env protoActive ctxs)) bs),
            [GetSpotClearinghouseState a, GetSpotMetaAndAssetCtxs]) \<and>
         enrich env protoActive (buildPriceMap env protoActive ctxs) b =
           b\<lparr>balance_price := Some (PriceNumber (Fin 0)),
             balance_usdValue := Some (Fin 0)\<rparr>"
proof -
  have "bs \<noteq> []" using assms(3) by auto
  with assms(1,2) have fetch: "fetchSpot env protoActive a =
           (Some (map (enrich env protoActive (buildPriceMap env protoActive ctxs)) bs),
            [GetSpotClearinghouseState a, GetSpotMetaAndAssetCtxs])"
    by (simp add: fetchSpot_enriches)
  have "map_of (buildPriceMap env protoActive ctxs) (balance_coin b) = None"
    using assms(4,5) by (rule buildPriceMap_no_entry)
  then have "priceOf protoActive (buildPriceMap env protoActive ctxs) (balance_coin b) =
      PriceNumber (Fin 0)"
    using assms(6,7) by (auto simp: priceOf_def getProperty_def split: option.splits)
  then have "enrich env protoActive (buildPriceMap env protoActive ctxs) b =
           b\<lparr>balance_price := Some (PriceNumber (Fin 0)),
             balance_usdValue := Some (Fin 0)\<rparr>"
    using assms(8) by (simp add: enrich_def Let_def toDouble_0)
  with fetch show ?thesis by simp
qed

theorem spot_balance_without_price_witness:
  "fetchSpot spotEnv None ''0xabc'' =
     (Some [hypeBalance\<lparr>balance_price := Some (PriceNumber (Fin (5 / 2))),
              balance_usdValue := Some (Fin 25)\<rparr>,
            purrBalance\<lparr>balance_price := Some (PriceNumber (Fin 0)),
              balance_usdValue := Some (Fin 0)\<rparr>],
      [GetSpotClearinghouseState ''0xabc'', GetSpotMetaAndAssetCtxs])"
proof -
  have env: "parseFloat spotEnv = parseFloat exampleEnv"
    "getSpotClearinghouseState spotEnv ''0xabc'' = Inr (Some [hypeBalance, purrBalance])"
    "getSpotMetaAndAssetCtxs spotEnv = Inr (JNull, exampleCtxs)"
    by (simp_all add: spotEnv_def)
  have build: "buildPriceMap spotEnv None exampleCtxs =
      [(''HYPE-SPOT'', Fin (5 / 2)), (''USDC-SPOT'', Fin 1)]"
    by (simp add: buildPriceMap_def exampleCtxs_def setPrice_def env(1) exampleEnv_def
        getProperty_def truthy_property_def objectPrototypeKeys_def Let_def)
  have hype: "enrich spotEnv None [(''HYPE-SPOT'', Fin (5 / 2)), (''USDC-SPOT'', Fin 1)]
      hypeBalance =
      hypeBalance\<lparr>balance_price := Some (PriceNumber (Fin (5 / 2))),
        balance_usdValue := Some (Fin 25)\<rparr>"
    by (simp add: enrich_def priceOf_def getProperty_def hypeBalance_def env(1)
        exampleEnv_def Let_def toDouble_25)
  have "fetchSpot spotEnv None ''0xabc'' =
           (Some (map (enrich spotEnv None (buildPriceMap spotEnv None exampleCtxs))
              [hypeBalance, purrBalance]),
            [GetSpotClearinghouseState ''0xabc'', GetSpotMetaAndAssetCtxs]) \<and>
         enrich spotEnv None (buildPriceMap spotEnv None exampleCtxs) purrBalance =
           purrBalance\<lparr>balance_price := Some (PriceNumber (Fin 0)),
             balance_usdValue := Some (Fin 0)\<rparr>"
    using env
    by (intro spot_balance_without_price [where q = 10])
      (simp_all add: purrBalance_def exampleCtxs_def objectPrototypeKeys_def exampleEnv_def)
  then show ?thesis by (simp add: build hype)
qed

text \<open>
  C10 as stated fails for a quantity that does not parse: the price is 0, and the
  \<open>usdValue\<close>, NaN times 0, is NaN.
\<close>

theorem spot_balance_without_price_garbled:
  "fetchSpot garbledEnv None ''0xabc'' =
     (Some [garbledBalance\<lparr>balance_price := Some (PriceNumber (Fin 0)),
              balance_usdValue := Some NaN\<rparr>],
      [GetSpotClearinghouseState ''0xabc'', GetSpotMetaAndAssetCtxs])"
  by (simp add: fetchSpot_def garbledEnv_def garbledBalance_def exampleEnv_def
      exampleCtxs_def buildPriceMap_def setPrice_def enrich_def priceOf_def getProperty_def
      truthy_property_def objectPrototypeKeys_def Let_def)

text \<open>
  A coin that names a property every object inherits is found by \<open>priceMap[coin]\<close> on
  the prototype: the price is that function, and the \<open>usdValue\<close> is NaN.
\<close>

lemma spot_balance_inherited_coin:
  "enrich exampleEnv None (buildPriceMap exampleEnv None exampleCtxs)
     (purrBalance\<lparr>balance_coin := ''constructor''\<rparr>) =
   purrBalance\<lparr>balance_coin := ''constructor'',
     balance_price := Some (PriceBuiltin ''constructor''),
     balance_usdValue := Some NaN\<rparr>"
proof -
  have "priceOf None (buildPriceMap exampleEnv None exampleCtxs) ''constructor'' =
      PriceBuiltin ''constructor''"
    by (simp add: priceOf_def getProperty_def buildPriceMap_exampleCtxs
        objectPrototypeKeys_def)
  moreover have "parseFloat exampleEnv ''10'' = Fin 10" by (simp add: exampleEnv_def)
  ultimately show ?thesis
    by (simp add: enrich_def purrBalance_def Let_def)
qed





end
